theory Spec2Isabelle
  imports Main
begin

text \<open>
  The hybrid AI managers of the StudySync browser extension: \<^verbatim>\<open>HybridAIManager\<close> with its
  resolution loop over three strategies (Chrome built-in AI, Gemini API, basic fallback) and
  their helpers, the Gemini calls of \<^verbatim>\<open>AIManagerEnhanced\<close> and \<^verbatim>\<open>AIManager\<close>, and the
  capability checks. The functions are pure: the browser's \<^verbatim>\<open>ai\<close> object and the network are
  parameters, the manager's state is passed and returned, an exception is the \<open>Inl\<close> of a sum,
  and console lines and backend calls are collected in a list of events.
\<close>

section \<open>JavaScript strings\<close>

text \<open>
  A JavaScript string is modelled as a \<^typ>\<open>string\<close>: one \<^typ>\<open>char\<close> per UTF-16 code unit,
  for code units below 256. The white space of \<^verbatim>\<open>String.prototype.trim\<close> and of the
  regular-expression class \<^verbatim>\<open>\s\<close> in that range is TAB, LF, VT, FF, CR, SPACE and NBSP.
\<close>

definition isSpace :: "char \<Rightarrow> bool" where
  "isSpace c \<longleftrightarrow> (of_char c :: nat) \<in> set [9, 10, 11, 12, 13, 32, 160]"

definition trim :: "string \<Rightarrow> string" where
  "trim s = rev (dropWhile isSpace (rev (dropWhile isSpace s)))"

definition isDigit :: "char \<Rightarrow> bool" where
  "isDigit c \<longleftrightarrow> 48 \<le> (of_char c :: nat) \<and> (of_char c :: nat) \<le> 57"

definition isUpper :: "char \<Rightarrow> bool" where
  "isUpper c \<longleftrightarrow> 65 \<le> (of_char c :: nat) \<and> (of_char c :: nat) \<le> 90"

definition isLower :: "char \<Rightarrow> bool" where
  "isLower c \<longleftrightarrow> 97 \<le> (of_char c :: nat) \<and> (of_char c :: nat) \<le> 122"

text \<open>The word characters of \<^verbatim>\<open>\w\<close> and \<^verbatim>\<open>\b\<close>: letters, digits and the underscore.\<close>

definition isWordChar :: "char \<Rightarrow> bool" where
  "isWordChar c \<longleftrightarrow> isDigit c \<or> isUpper c \<or> isLower c \<or> c = CHR ''_''"

definition toUpperChar :: "char \<Rightarrow> char" where
  "toUpperChar c = (if isLower c then char_of ((of_char c :: nat) - 32) else c)"

definition toLowerChar :: "char \<Rightarrow> char" where
  "toLowerChar c = (if isUpper c then char_of ((of_char c :: nat) + 32) else c)"

text \<open>\<^verbatim>\<open>xs.join(sep)\<close> on an array of strings.\<close>

fun joinWith :: "string \<Rightarrow> string list \<Rightarrow> string" where
  "joinWith sep [] = []"
| "joinWith sep [x] = x"
| "joinWith sep (x # y # ys) = x @ sep @ joinWith sep (y # ys)"

text \<open>\<^verbatim>\<open>s.split(c)\<close> for a one-character separator: the result is never empty.\<close>

fun splitOn :: "char \<Rightarrow> string \<Rightarrow> string list" where
  "splitOn c [] = [[]]"
| "splitOn c (x # xs) =
     (if x = c then [] # splitOn c xs
      else (case splitOn c xs of [] \<Rightarrow> [[x]] | y # ys \<Rightarrow> (x # y) # ys))"

fun startsWith :: "string \<Rightarrow> string \<Rightarrow> bool" where
  "startsWith [] s = True"
| "startsWith (p # ps) [] = False"
| "startsWith (p # ps) (c # cs) = (p = c \<and> startsWith ps cs)"

text \<open>\<^verbatim>\<open>s.includes(pat)\<close>.\<close>

fun includesStr :: "string \<Rightarrow> string \<Rightarrow> bool" where
  "includesStr pat [] = (pat = [])"
| "includesStr pat (c # cs) = (startsWith pat (c # cs) \<or> includesStr pat cs)"

text \<open>\<^verbatim>\<open>s.replace(pat, rep)\<close> with a string pattern: only the first occurrence is replaced.\<close>

fun replaceFirst :: "string \<Rightarrow> string \<Rightarrow> string \<Rightarrow> string" where
  "replaceFirst pat rep [] = (if pat = [] then rep else [])"
| "replaceFirst pat rep (c # cs) =
     (if startsWith pat (c # cs) then rep @ drop (length pat) (c # cs)
      else c # replaceFirst pat rep cs)"

text \<open>
  An array index, an array length or an HTTP status in a template literal: the decimal digits of
  a natural number (JavaScript prints an integer below \<^verbatim>\<open>1e21\<close> with all its digits).
\<close>

fun showNat :: "nat \<Rightarrow> string" where
  "showNat n = (if n < 10 then [char_of (48 + n)] else showNat (n div 10) @ [char_of (48 + n mod 10)])"

declare showNat.simps [simp del]

section \<open>Sentences\<close>

text \<open>
  \<^verbatim>\<open>text.match(/[^.!?]+[.!?]+/g) || []\<close>: all non-overlapping matches from left to right of a
  non-empty run of characters other than \<^verbatim>\<open>.\<close>, \<^verbatim>\<open>!\<close>, \<^verbatim>\<open>?\<close> followed by a non-empty run of those
  three. Both runs are greedy, so a match is a maximal run of each kind; terminators with no text
  before them are skipped, and text with no terminator after it is in no match.
  \<open>sentScan body terms s\<close> scans \<open>s\<close> having read the text \<open>body\<close> and then the terminators \<open>terms\<close>
  of the match in progress.
\<close>

definition isTerminator :: "char \<Rightarrow> bool" where
  "isTerminator c \<longleftrightarrow> c = CHR ''.'' \<or> c = CHR ''!'' \<or> c = CHR ''?''"

fun sentScan :: "string \<Rightarrow> string \<Rightarrow> string \<Rightarrow> string list" where
  "sentScan body terms [] = (if terms \<noteq> [] then [body @ terms] else [])"
| "sentScan body terms (c # cs) =
     (if isTerminator c then
        (if body = [] then sentScan [] [] cs else sentScan body (terms @ [c]) cs)
      else
        (if terms \<noteq> [] then (body @ terms) # sentScan [c] [] cs
         else sentScan (body @ [c]) [] cs))"

definition matchSentences :: "string \<Rightarrow> string list" where
  "matchSentences s = sentScan [] [] s"

section \<open>Values, errors and options\<close>

text \<open>
  Every exception of the source is an \<^verbatim>\<open>Error\<close> object of which only \<^verbatim>\<open>message\<close> is read. The
  message of the \<^verbatim>\<open>TypeError\<close> raised by reading a property of \<^verbatim>\<open>undefined\<close> is the one V8 gives.
\<close>

datatype jserror = Error (message: string)

definition typeError :: "string \<Rightarrow> jserror" where
  "typeError prop =
     Error (''Cannot read properties of undefined (reading '' @ [CHR 0x27] @ prop @ [CHR 0x27] @ '')'')"

record flashcard =
  question :: string
  answer :: string

text \<open>What a strategy returns: a string, a list of questions, a list of flashcards, or \<^verbatim>\<open>undefined\<close>.\<close>

datatype jsresult = Undefined | Text string | Questions "string list" | Flashcards "flashcard list"

text \<open>The test \<^verbatim>\<open>if (result)\<close>: the empty string and \<^verbatim>\<open>undefined\<close> are falsy, every array is truthy.\<close>

fun truthy :: "jsresult \<Rightarrow> bool" where
  "truthy Undefined = False"
| "truthy (Text s) = (s \<noteq> [])"
| "truthy (Questions qs) = True"
| "truthy (Flashcards fs) = True"

text \<open>
  The operation is a string in the source; \<open>Other name\<close> stands for a string \<open>name\<close> other than
  the seven operation names, which takes the \<^verbatim>\<open>default\<close> branch of the \<^verbatim>\<open>switch\<close> statements.
\<close>

datatype operation =
  Summarize | Translate | GenerateQuestions | CreateFlashcards | Proofread | Explain | Rewrite
  | Other string

text \<open>
  A number of the options object is a double, of which the source observes two things: whether
  it is truthy (neither zero nor \<^verbatim>\<open>NaN\<close>), in \<^verbatim>\<open>x || d\<close>, and its decimal form, in a template
  literal and in the JSON of a request. It is modelled by these two observations.
\<close>

datatype jsnumber = JsNumber (nonzero: bool) (printed: string)

text \<open>The options object: each property is absent (\<open>None\<close>) or has a value.\<close>

record options =
  lengthOpt :: "string option"
  format :: "string option"
  sourceLanguage :: "string option"
  targetLanguage :: "string option"
  count :: "jsnumber option"
  difficulty :: "string option"
  level :: "string option"
  tone :: "string option"
  temperature :: "jsnumber option"
  maxTokens :: "jsnumber option"
  systemPrompt :: "string option"
  forceNew :: bool

text \<open>\<^verbatim>\<open>x || d\<close>: the default is taken when \<open>x\<close> is absent or falsy (the empty string, zero,
  \<^verbatim>\<open>NaN\<close>).\<close>

fun orStr :: "string option \<Rightarrow> string \<Rightarrow> string" where
  "orStr None d = d"
| "orStr (Some s) d = (if s = [] then d else s)"

fun orNum :: "jsnumber option \<Rightarrow> jsnumber \<Rightarrow> jsnumber" where
  "orNum None d = d"
| "orNum (Some n) d = (if nonzero n then n else d)"

text \<open>
  The members every object literal inherits from \<^verbatim>\<open>Object.prototype\<close>: reading one of these
  names from an object literal that does not define it gives a function (the prototype object
  itself for \<^verbatim>\<open>__proto__\<close>), which is truthy and, as a number, \<^verbatim>\<open>NaN\<close>.
\<close>

definition inheritedMembers :: "string list" where
  "inheritedMembers =
     [''constructor'', ''toString'', ''toLocaleString'', ''valueOf'', ''hasOwnProperty'',
      ''isPrototypeOf'', ''propertyIsEnumerable'', ''__proto__'', ''__defineGetter__'',
      ''__defineSetter__'', ''__lookupGetter__'', ''__lookupSetter__'']"

section \<open>Parsing structured responses\<close>

text \<open>\<^verbatim>\<open>line.replace(/^\d+[\.\)]\s*/, '')\<close>: a leading ordinal, its dot or parenthesis and the
  white space after it are removed.\<close>

definition stripNumbering :: "string \<Rightarrow> string" where
  "stripNumbering line =
     (let ds = takeWhile isDigit line; rest = dropWhile isDigit line in
      if ds \<noteq> [] \<and> rest \<noteq> [] \<and> (hd rest = CHR ''.'' \<or> hd rest = CHR '')'')
      then dropWhile isSpace (tl rest) else line)"

fun collectQuestions :: "string list \<Rightarrow> string list \<Rightarrow> string list" where
  "collectQuestions [] questions = questions"
| "collectQuestions (line # lines) questions =
     (let cleaned = trim (stripNumbering line) in
      if cleaned \<noteq> [] \<and> length cleaned > 10
      then collectQuestions lines (questions @ [cleaned])
      else collectQuestions lines questions)"

definition parseQuestions :: "string \<Rightarrow> string list" where
  "parseQuestions txt =
     (let lines = filter (\<lambda>line. trim line \<noteq> []) (splitOn CHR 0x0A txt);
          questions = collectQuestions lines []
      in if length questions > 0 then questions else [''Could not generate questions''])"

text \<open>
  The loop of \<^verbatim>\<open>parseFlashcards\<close>. A line with \<^verbatim>\<open>Q:\<close> and \<^verbatim>\<open>A:\<close> but no \<^verbatim>\<open>|\<close> leaves \<^verbatim>\<open>a\<close>
  undefined, and \<^verbatim>\<open>a.replace\<close> raises.
\<close>

fun collectFlashcards :: "string list \<Rightarrow> flashcard list \<Rightarrow> jserror + flashcard list" where
  "collectFlashcards [] flashcards = Inr flashcards"
| "collectFlashcards (line # lines) flashcards =
     (if includesStr ''Q:'' line \<and> includesStr ''A:'' line then
        (case map trim (splitOn CHR ''|'' line) of
           q # a # _ \<Rightarrow>
             (let question = trim (replaceFirst ''Q:'' [] q);
                  answer = trim (replaceFirst ''A:'' [] a)
              in if question \<noteq> [] \<and> answer \<noteq> []
                 then collectFlashcards lines (flashcards @ [\<lparr>question = question, answer = answer\<rparr>])
                 else collectFlashcards lines flashcards)
         | _ \<Rightarrow> Inl (typeError ''replace''))
      else collectFlashcards lines flashcards)"

definition parseFlashcards :: "string \<Rightarrow> jserror + flashcard list" where
  "parseFlashcards txt =
     (case collectFlashcards (splitOn CHR 0x0A txt) [] of
        Inl e \<Rightarrow> Inl e
      | Inr flashcards \<Rightarrow>
          Inr (if length flashcards > 0 then flashcards
               else [\<lparr>question = ''Sample Question'', answer = ''Sample Answer''\<rparr>]))"

section \<open>The basic fallback (no AI)\<close>

text \<open>
  The loop of \<^verbatim>\<open>basicSummarize\<close>:
  \<^verbatim>\<open>for (let i = step; i < sentences.length - 1; i += step) if (result.length < count - 1) result.push(sentences[i])\<close>.
  It is entered with at least one sentence and \<open>count \<ge> 2\<close>. With \<open>step = 0\<close> the source loop
  would not end; \<open>step\<close> is at least 1 wherever \<^verbatim>\<open>basicSummarize\<close> reaches the loop.
\<close>

function pickSentences :: "nat \<Rightarrow> nat \<Rightarrow> nat \<Rightarrow> string list \<Rightarrow> string list \<Rightarrow> string list" where
  "pickSentences i step cnt sentences result =
     (if 0 < step \<and> i + 1 < length sentences
      then pickSentences (i + step) step cnt sentences
             (if length result + 1 < cnt then result @ [sentences ! i] else result)
      else result)"
  by pat_completeness auto
termination
  by (relation "measure (\<lambda>(i, step, cnt, sentences, result). length sentences - i)") auto

declare pickSentences.simps [simp del]

text \<open>
  \<^verbatim>\<open>counts[length] || 4\<close> with \<^verbatim>\<open>counts = { short: 2, medium: 4, long: 6 }\<close>. A length that
  names an inherited member reads that member: it is truthy, so the default is not taken, and
  \<^verbatim>\<open>count\<close> is not a number (\<open>None\<close>).
\<close>

definition sentenceCount :: "string \<Rightarrow> nat option" where
  "sentenceCount len =
     (if len = ''short'' then Some 2 else if len = ''medium'' then Some 4
      else if len = ''long'' then Some 6
      else if len \<in> set inheritedMembers then None else Some 4)"

text \<open>
  \<^verbatim>\<open>sentences[i]\<close> where the element is only joined: out of range it is \<^verbatim>\<open>undefined\<close>, which
  \<^verbatim>\<open>join\<close> writes as the empty string.
\<close>

definition elementOrUndefined :: "string list \<Rightarrow> nat \<Rightarrow> string" where
  "elementOrUndefined xs i = (if i < length xs then xs ! i else [])"

text \<open>
  With a \<^verbatim>\<open>count\<close> that is not a number, \<^verbatim>\<open>sentences.length <= count\<close> is false, \<^verbatim>\<open>step\<close> is
  \<^verbatim>\<open>NaN\<close> and the loop is not entered (\<^verbatim>\<open>NaN < sentences.length - 1\<close> is false): the result is
  the first and the last sentence, both \<^verbatim>\<open>undefined\<close> when there is no sentence.
\<close>

definition basicSummarize :: "string \<Rightarrow> options \<Rightarrow> string" where
  "basicSummarize txt opts =
     (let sentences = matchSentences txt;
          len = orStr (lengthOpt opts) ''medium''
      in case sentenceCount len of
           Some cnt \<Rightarrow>
             (if length sentences \<le> cnt then joinWith '' '' sentences
              else
                (let result = [sentences ! 0];
                     step = length sentences div cnt;
                     result = pickSentences step step cnt sentences result;
                     result = result @ [sentences ! (length sentences - 1)]
                 in joinWith '' '' result))
         | None \<Rightarrow>
             (let result = [elementOrUndefined sentences 0];
                  result = result @ [elementOrUndefined sentences (length sentences - 1)]
              in joinWith '' '' result))"

text \<open>
  \<^verbatim>\<open>encodeURIComponent\<close> on code units below 256: the unreserved characters stay, a code unit
  below 128 becomes one escaped byte, the others the two escaped bytes of their UTF-8 form.
\<close>

definition hexDigit :: "nat \<Rightarrow> char" where
  "hexDigit d = (if d < 10 then char_of (48 + d) else char_of (55 + d))"

definition percentByte :: "nat \<Rightarrow> string" where
  "percentByte b = [CHR ''%'', hexDigit (b div 16), hexDigit (b mod 16)]"

definition isUnreserved :: "char \<Rightarrow> bool" where
  "isUnreserved c \<longleftrightarrow> isDigit c \<or> isUpper c \<or> isLower c \<or> c \<in> set (''-_.!~*()'' @ [CHR 0x27])"

definition encodeUnit :: "char \<Rightarrow> string" where
  "encodeUnit c =
     (let n = (of_char c :: nat) in
      if isUnreserved c then [c]
      else if n < 128 then percentByte n
      else percentByte (192 + n div 64) @ percentByte (128 + n mod 64))"

definition encodeURIComponent :: "string \<Rightarrow> string" where
  "encodeURIComponent s = concat (map encodeUnit s)"

definition basicTranslate :: "string \<Rightarrow> options \<Rightarrow> string" where
  "basicTranslate txt opts =
     (let sourceLang = orStr (sourceLanguage opts) ''en'';
          targetLang = orStr (targetLanguage opts) ''es'';
          url = ''https://translate.google.com/?sl='' @ sourceLang @ ''&tl='' @ targetLang
                @ ''&text='' @ encodeURIComponent txt
      in ''Translation not available offline. Open Google Translate: '' @ url)"

definition templates :: "string list" where
  "templates =
     [''What is the main topic discussed?'',
      ''Can you explain the key concept mentioned?'',
      ''What are the important points to remember?'',
      ''How does this information relate to the subject?'',
      ''What conclusions can be drawn from this text?'']"

definition basicGenerateQuestions :: "string \<Rightarrow> string list" where
  "basicGenerateQuestions txt =
     (let sentences = matchSentences txt;
          questions =
            (if length sentences > 0
             then (let firstSentence = sentences ! 0;
                       topic = joinWith '' '' (take 5 (splitOn CHR '' '' firstSentence))
                   in [''What do you know about '' @ topic @ ''?''])
             else [])
      in questions @ take 4 templates)"

text \<open>
  The first match of \<^verbatim>\<open>/\b[A-Z][a-z]+\b|\b\d+\b/g\<close> in a sentence: a capital followed by a maximal
  non-empty run of small letters, or a maximal run of digits, with no word character on either
  side. \<open>pw\<close> tells whether the character before the scanned position is a word character.
\<close>

definition atWordEnd :: "string \<Rightarrow> bool" where
  "atWordEnd rest = (case rest of [] \<Rightarrow> True | r # _ \<Rightarrow> \<not> isWordChar r)"

fun firstKeyTerm :: "bool \<Rightarrow> string \<Rightarrow> string option" where
  "firstKeyTerm pw [] = None"
| "firstKeyTerm pw (c # cs) =
     (if \<not> pw \<and> isUpper c \<and> takeWhile isLower cs \<noteq> [] \<and> atWordEnd (dropWhile isLower cs)
      then Some (c # takeWhile isLower cs)
      else if \<not> pw \<and> isDigit c \<and> atWordEnd (dropWhile isDigit cs)
      then Some (c # takeWhile isDigit cs)
      else firstKeyTerm (isWordChar c) cs)"

definition makeFlashcard :: "string \<times> nat \<Rightarrow> flashcard" where
  "makeFlashcard = (\<lambda>(sentence, index).
     (case firstKeyTerm False sentence of
        Some keyTerm \<Rightarrow> \<lparr>question = ''What is '' @ keyTerm @ ''?'', answer = trim sentence\<rparr>
      | None \<Rightarrow> \<lparr>question = ''Fact #'' @ showNat (index + 1), answer = trim sentence\<rparr>))"

definition basicCreateFlashcards :: "string \<Rightarrow> flashcard list" where
  "basicCreateFlashcards txt =
     (let sentences = take 10 (matchSentences txt)
      in map makeFlashcard (zip sentences [0 ..< length sentences]))"

text \<open>
  \<^verbatim>\<open>corrected.replace(new RegExp(`\\b${wrong}\\b`, 'gi'), right)\<close>: every occurrence of the word
  \<open>wrong\<close>, in either case of each letter and with no word character on either side, is replaced.
  \<open>pw\<close> tells whether the character before is a word character, \<open>skip\<close> counts the characters of
  the current match still to pass over.
\<close>

fun startsWithCI :: "string \<Rightarrow> string \<Rightarrow> bool" where
  "startsWithCI [] s = True"
| "startsWithCI (p # ps) [] = False"
| "startsWithCI (p # ps) (c # cs) = (toLowerChar p = toLowerChar c \<and> startsWithCI ps cs)"

fun replaceWord :: "string \<Rightarrow> string \<Rightarrow> bool \<Rightarrow> nat \<Rightarrow> string \<Rightarrow> string" where
  "replaceWord wrong right pw skip [] = []"
| "replaceWord wrong right pw skip (c # cs) =
     (if skip > 0 then replaceWord wrong right True (skip - 1) cs
      else if \<not> pw \<and> startsWithCI wrong (c # cs) \<and> atWordEnd (drop (length wrong) (c # cs))
      then right @ replaceWord wrong right True (length wrong - 1) cs
      else c # replaceWord wrong right (isWordChar c) 0 cs)"

definition corrections :: "(string \<times> string) list" where
  "corrections =
     [(''teh'', ''the''), (''recieve'', ''receive''), (''occured'', ''occurred''),
      (''untill'', ''until''), (''wich'', ''which''),
      (''doesnt'', ''doesn'' @ [CHR 0x27] @ ''t''), (''dont'', ''don'' @ [CHR 0x27] @ ''t''),
      (''wont'', ''won'' @ [CHR 0x27] @ ''t''), (''cant'', ''can'' @ [CHR 0x27] @ ''t''),
      (''wouldnt'', ''wouldn'' @ [CHR 0x27] @ ''t'')]"

text \<open>
  \<^verbatim>\<open>corrected.replace(/^\s*[a-z]/gm, match => match.toUpperCase())\<close>: a small letter that is the
  first character after a line start other than white space is made a capital. \<open>a\<close> tells whether
  only white space lies between the last line start and the scanned position.
\<close>

definition isLineTerminator :: "char \<Rightarrow> bool" where
  "isLineTerminator c \<longleftrightarrow> c = CHR 0x0A \<or> c = CHR 0x0D"

fun capitalizeLines :: "bool \<Rightarrow> string \<Rightarrow> string" where
  "capitalizeLines a [] = []"
| "capitalizeLines a (c # cs) =
     (if a \<and> isLower c then toUpperChar c # capitalizeLines False cs
      else c # capitalizeLines ((a \<and> isSpace c) \<or> isLineTerminator c) cs)"

text \<open>\<^verbatim>\<open>corrected.replace(/\. [a-z]/g, match => match.toUpperCase())\<close>.\<close>

fun capitalizeAfterDot :: "string \<Rightarrow> string" where
  "capitalizeAfterDot (a # b # c # rest) =
     (if a = CHR ''.'' \<and> b = CHR '' '' \<and> isLower c
      then a # b # toUpperChar c # capitalizeAfterDot rest
      else a # capitalizeAfterDot (b # c # rest))"
| "capitalizeAfterDot s = s"

definition basicProofread :: "string \<Rightarrow> string" where
  "basicProofread txt =
     (let corrected = fold (\<lambda>(wrong, right) corrected. replaceWord wrong right False 0 corrected)
                        corrections txt;
          corrected = capitalizeLines True corrected;
          corrected = capitalizeAfterDot corrected
      in corrected)"

text \<open>\<^verbatim>\<open>text.split(/\s+/)\<close>: the pieces between maximal runs of white space. \<open>sp\<close> tells whether
  the character before is white space.\<close>

fun splitWhitespace :: "bool \<Rightarrow> string \<Rightarrow> string list" where
  "splitWhitespace sp [] = [[]]"
| "splitWhitespace sp (c # cs) =
     (if isSpace c then (if sp then splitWhitespace True cs else [] # splitWhitespace True cs)
      else (case splitWhitespace False cs of [] \<Rightarrow> [[c]] | y # ys \<Rightarrow> (c # y) # ys))"

definition basicExplain :: "string \<Rightarrow> string" where
  "basicExplain txt =
     (let words = splitWhitespace False txt;
          wordCount = length words;
          sentences = matchSentences txt;
          shown = take 3 sentences;
          points = map (\<lambda>(s, i). showNat (i + 1) @ ''. '' @ trim s) (zip shown [0 ..< length shown])
      in ''This text contains '' @ showNat wordCount @ '' words and '' @ showNat (length sentences)
         @ '' sentences. '' @ [CHR 0x0A]
         @ replicate 12 CHR '' '' @ ''The main topic appears to be: ''
         @ joinWith '' '' (take 5 words) @ ''...'' @ [CHR 0x0A]
         @ replicate 12 CHR '' '' @ [CHR 0x0A]
         @ replicate 12 CHR '' '' @ ''Key points:'' @ [CHR 0x0A]
         @ replicate 12 CHR '' '' @ joinWith [CHR 0x0A] points)"

text \<open>
  Effects a resolution leaves behind: the lines \<^verbatim>\<open>process\<close> writes to the console for each strategy
  (trying, success, failure with the error's message) and the uses of a backend by a strategy
  (the global \<^verbatim>\<open>ai\<close> object after the availability gate, \<^verbatim>\<open>fetch\<close> with its URL, the basic
  fallback with its input text); \<open>ModelCreateCalled\<close> is the call of
  \<^verbatim>\<open>ai.languageModel.create()\<close> by which the capability check starts the model download.
\<close>

datatype event =
  Trying string | Succeeded string | Failed string string
  | BuiltInUsed operation string | Fetched string | BasicFallbackUsed operation string
  | ModelCreateCalled

definition processWithBasicFallback ::
  "string \<Rightarrow> operation \<Rightarrow> options \<Rightarrow> (jserror + jsresult) \<times> event list" where
  "processWithBasicFallback txt operation opts =
     (Inr (case operation of
             Summarize \<Rightarrow> Text (basicSummarize txt opts)
           | Translate \<Rightarrow> Text (basicTranslate txt opts)
           | GenerateQuestions \<Rightarrow> Questions (basicGenerateQuestions txt)
           | CreateFlashcards \<Rightarrow> Flashcards (basicCreateFlashcards txt)
           | Proofread \<Rightarrow> Text (basicProofread txt)
           | Explain \<Rightarrow> Text (basicExplain txt)
           | Rewrite \<Rightarrow> Text txt
           | Other _ \<Rightarrow> Text (''[Basic processing] '' @ take 200 txt @ ''...'')),
      [BasicFallbackUsed operation txt])"

section \<open>The backends\<close>

text \<open>
  The global \<^verbatim>\<open>ai\<close> object of the browser. Each function stands for creating the session
  (summarizer, translator, language model, proofreader, rewriter) with the given configuration
  and awaiting its answer to the given text; \<open>Inl\<close> is the exception either step raises.
  \<^verbatim>\<open>ai.proofreader\<close> and \<^verbatim>\<open>ai.rewriter\<close> may be absent.
\<close>

record ai_api =
  summarizer :: "string \<Rightarrow> string \<Rightarrow> string \<Rightarrow> jserror + string"
  translator :: "string \<Rightarrow> string \<Rightarrow> string \<Rightarrow> jserror + string"
  languageModel :: "string \<Rightarrow> jserror + string"
  proofreader :: "(string \<Rightarrow> jserror + string) option"
  rewriter :: "(string \<Rightarrow> string \<Rightarrow> string \<Rightarrow> jserror + string) option"

text \<open>
  The JSON body of a Gemini response, at the types of the properties the source reads: each
  property is absent (\<open>None\<close>) or present. \<open>errorMessage\<close> is \<^verbatim>\<open>body.error?.message\<close>.
\<close>

datatype part = Part (partText: "string option")

datatype content = Content (parts: "part list option")

datatype candidate = Candidate (content: "content option") (candidateOutput: "string option")

datatype body = Body (candidates: "candidate list option") (errorMessage: "string option")

text \<open>The response of \<^verbatim>\<open>fetch\<close>; \<open>json\<close> is what \<^verbatim>\<open>await response.json()\<close> gives or raises.\<close>

datatype response =
  Response (ok: bool) (status: nat) (statusText: string) (json: "jserror + body")

text \<open>
  The request handed to \<^verbatim>\<open>fetch\<close>: its URL and the values of \<^verbatim>\<open>text\<close>, \<^verbatim>\<open>temperature\<close> and
  \<^verbatim>\<open>maxOutputTokens\<close> in the object given to \<^verbatim>\<open>JSON.stringify\<close>. The value of \<^verbatim>\<open>text\<close> is a
  string or, in \<^verbatim>\<open>processWithGeminiAPI\<close> with an operation that names an inherited member of the
  \<^verbatim>\<open>prompts\<close> object, that member (which \<^verbatim>\<open>JSON.stringify\<close> leaves out of the body, or writes
  as \<^verbatim>\<open>{}\<close> for \<^verbatim>\<open>__proto__\<close>).
\<close>

datatype prompt = PromptString string | PromptMember string

record request =
  url :: string
  promptText :: prompt
  generationTemperature :: jsnumber
  maxOutputTokens :: jsnumber

record env =
  ai :: ai_api
  fetch :: "request \<Rightarrow> jserror + response"

section \<open>HybridAIManager\<close>

record stats =
  builtInCalls :: nat
  cloudCalls :: nat
  fallbackCalls :: nat
  errors :: nat

record hybrid =
  isBuiltInAIAvailable :: bool
  geminiApiKey :: "string option"
  stats :: stats

text \<open>The object \<^verbatim>\<open>process\<close> returns: \<^verbatim>\<open>{ result, method: strategy.name, stats: this.stats }\<close>.\<close>

record outcome =
  result :: jsresult
  methodName :: string
  statsReturned :: stats

subsection \<open>Strategy 1: Chrome built-in AI\<close>

definition summarizeBuiltIn :: "ai_api \<Rightarrow> string \<Rightarrow> options \<Rightarrow> jserror + jsresult" where
  "summarizeBuiltIn a txt opts =
     map_sum id Text
       (summarizer a (orStr (lengthOpt opts) ''medium'') (orStr (format opts) ''plain-text'') txt)"

definition translateBuiltIn :: "ai_api \<Rightarrow> string \<Rightarrow> options \<Rightarrow> jserror + jsresult" where
  "translateBuiltIn a txt opts =
     map_sum id Text
       (translator a (orStr (sourceLanguage opts) ''en'') (orStr (targetLanguage opts) ''es'') txt)"

definition generateQuestionsBuiltIn :: "ai_api \<Rightarrow> string \<Rightarrow> options \<Rightarrow> jserror + jsresult" where
  "generateQuestionsBuiltIn a txt opts =
     (let prompt = ''Generate '' @ printed (orNum (count opts) (JsNumber True ''5''))
                   @ '' study questions based on this text. '' @ [CHR 0x0A]
                   @ replicate 19 CHR '' '' @ ''Difficulty: '' @ orStr (difficulty opts) ''medium''
                   @ [CHR 0x0A]
                   @ replicate 19 CHR '' '' @ ''Format as numbered list.'' @ [CHR 0x0A]
                   @ replicate 19 CHR '' '' @ [CHR 0x0A]
                   @ replicate 19 CHR '' '' @ ''Text: '' @ txt
      in case languageModel a prompt of
           Inl e \<Rightarrow> Inl e
         | Inr response \<Rightarrow> Inr (Questions (parseQuestions response)))"

definition createFlashcardsBuiltIn :: "ai_api \<Rightarrow> string \<Rightarrow> options \<Rightarrow> jserror + jsresult" where
  "createFlashcardsBuiltIn a txt opts =
     (let prompt = ''Create '' @ printed (orNum (count opts) (JsNumber True ''10''))
                   @ '' flashcards from this text.'' @ [CHR 0x0A]
                   @ replicate 19 CHR '' '' @ ''Format: Q: [question] | A: [answer]'' @ [CHR 0x0A]
                   @ replicate 19 CHR '' '' @ [CHR 0x0A]
                   @ replicate 19 CHR '' '' @ ''Text: '' @ txt
      in case languageModel a prompt of
           Inl e \<Rightarrow> Inl e
         | Inr response \<Rightarrow> map_sum id Flashcards (parseFlashcards response))"

definition proofreadBuiltIn :: "ai_api \<Rightarrow> string \<Rightarrow> options \<Rightarrow> jserror + jsresult" where
  "proofreadBuiltIn a txt opts =
     (case proofreader a of
        Some proofread \<Rightarrow> map_sum id Text (proofread txt)
      | None \<Rightarrow>
          map_sum id Text
            (languageModel a
               (''Proofread and correct this text. Return only the corrected version: '' @ txt)))"

definition explainBuiltIn :: "ai_api \<Rightarrow> string \<Rightarrow> options \<Rightarrow> jserror + jsresult" where
  "explainBuiltIn a txt opts =
     map_sum id Text
       (languageModel a
          (''Explain this concept in simple terms for a '' @ orStr (level opts) ''beginner''
           @ '' level student: '' @ txt))"

definition rewriteBuiltIn :: "ai_api \<Rightarrow> string \<Rightarrow> options \<Rightarrow> jserror + jsresult" where
  "rewriteBuiltIn a txt opts =
     (case rewriter a of
        Some rewrite \<Rightarrow>
          map_sum id Text (rewrite (orStr (tone opts) ''neutral'') (orStr (lengthOpt opts) ''as-is'') txt)
      | None \<Rightarrow>
          map_sum id Text
            (languageModel a
               (''Rewrite this text in a '' @ orStr (tone opts) ''neutral'' @ '' tone: '' @ txt)))"

definition promptBuiltIn :: "ai_api \<Rightarrow> string \<Rightarrow> options \<Rightarrow> jserror + jsresult" where
  "promptBuiltIn a txt opts = map_sum id Text (languageModel a txt)"

definition processWithBuiltInAI ::
  "hybrid \<Rightarrow> env \<Rightarrow> string \<Rightarrow> operation \<Rightarrow> options \<Rightarrow> (jserror + jsresult) \<times> event list" where
  "processWithBuiltInAI h e txt operation opts =
     (if \<not> isBuiltInAIAvailable h then (Inl (Error ''Built-in AI not available''), [])
      else
        ((case operation of
            Summarize \<Rightarrow> summarizeBuiltIn (ai e) txt opts
          | Translate \<Rightarrow> translateBuiltIn (ai e) txt opts
          | GenerateQuestions \<Rightarrow> generateQuestionsBuiltIn (ai e) txt opts
          | CreateFlashcards \<Rightarrow> createFlashcardsBuiltIn (ai e) txt opts
          | Proofread \<Rightarrow> proofreadBuiltIn (ai e) txt opts
          | Explain \<Rightarrow> explainBuiltIn (ai e) txt opts
          | Rewrite \<Rightarrow> rewriteBuiltIn (ai e) txt opts
          | Other _ \<Rightarrow> promptBuiltIn (ai e) txt opts),
         [BuiltInUsed operation txt]))"

subsection \<open>Strategy 2: Gemini API\<close>

text \<open>
  \<^verbatim>\<open>prompts[operation] || text\<close>: the prompt of the operation; for an operation that is no key
  of \<^verbatim>\<open>prompts\<close>, the inherited member of that name if there is one, else the text (an empty
  prompt cannot arise for the seven keys, and an empty text is the default of itself).
\<close>

definition geminiPromptFor :: "string \<Rightarrow> operation \<Rightarrow> options \<Rightarrow> prompt" where
  "geminiPromptFor txt operation opts =
     (case operation of
        Summarize \<Rightarrow>
          PromptString
            (''Summarize this text in '' @ orStr (lengthOpt opts) ''medium'' @ '' length: '' @ txt)
      | Translate \<Rightarrow>
          PromptString
            (''Translate this text from '' @ orStr (sourceLanguage opts) ''en'' @ '' to ''
             @ orStr (targetLanguage opts) ''es'' @ '': '' @ txt)
      | GenerateQuestions \<Rightarrow>
          PromptString
            (''Generate '' @ printed (orNum (count opts) (JsNumber True ''5''))
             @ '' study questions ('' @ orStr (difficulty opts) ''medium'' @ '' difficulty) from: ''
             @ txt)
      | CreateFlashcards \<Rightarrow>
          PromptString
            (''Create '' @ printed (orNum (count opts) (JsNumber True ''10''))
             @ '' flashcards. Format: Q: [question] | A: [answer]. Text: '' @ txt)
      | Proofread \<Rightarrow>
          PromptString (''Proofread and correct this text. Return only corrected version: '' @ txt)
      | Explain \<Rightarrow>
          PromptString
            (''Explain this for a '' @ orStr (level opts) ''beginner'' @ '' student: '' @ txt)
      | Rewrite \<Rightarrow> PromptString (''Rewrite in '' @ orStr (tone opts) ''neutral'' @ '' tone: '' @ txt)
      | Other name \<Rightarrow>
          (if name \<in> set inheritedMembers then PromptMember name else PromptString txt))"

text \<open>
  \<^verbatim>\<open>data.candidates[0].content.parts[0].text\<close> with no guard: reading a property of an absent
  value raises, an absent \<^verbatim>\<open>text\<close> at the end of the path gives \<^verbatim>\<open>undefined\<close>.
\<close>

definition extractText :: "body \<Rightarrow> jserror + string option" where
  "extractText data =
     (case candidates data of
        None \<Rightarrow> Inl (typeError ''0'')
      | Some [] \<Rightarrow> Inl (typeError ''content'')
      | Some (c # _) \<Rightarrow>
          (case content c of
             None \<Rightarrow> Inl (typeError ''parts'')
           | Some ct \<Rightarrow>
               (case parts ct of
                  None \<Rightarrow> Inl (typeError ''0'')
                | Some [] \<Rightarrow> Inl (typeError ''text'')
                | Some (p # _) \<Rightarrow> Inr (partText p))))"

definition processWithGeminiAPI ::
  "hybrid \<Rightarrow> env \<Rightarrow> string \<Rightarrow> operation \<Rightarrow> options \<Rightarrow> (jserror + jsresult) \<times> event list" where
  "processWithGeminiAPI h e txt operation opts =
     (if orStr (geminiApiKey h) [] = [] then (Inl (Error ''Gemini API key not configured''), [])
      else
        (let prompt = geminiPromptFor txt operation opts;
             req = \<lparr>url = ''https://generativelanguage.googleapis.com/v1beta/models/gemini-pro:generateContent?key=''
                          @ orStr (geminiApiKey h) [],
                    promptText = prompt,
                    generationTemperature = orNum (temperature opts) (JsNumber True ''0.7''),
                    maxOutputTokens = orNum (maxTokens opts) (JsNumber True ''1024'')\<rparr>
         in ((case fetch e req of
                Inl err \<Rightarrow> Inl err
              | Inr resp \<Rightarrow>
                  (if \<not> ok resp then
                     (case json resp of
                        Inl err \<Rightarrow> Inl err
                      | Inr error \<Rightarrow>
                          Inl (Error (''Gemini API error: ''
                                      @ orStr (errorMessage error) (statusText resp))))
                   else
                     (case json resp of
                        Inl err \<Rightarrow> Inl err
                      | Inr data \<Rightarrow>
                          (case extractText data of
                             Inl err \<Rightarrow> Inl err
                           | Inr res \<Rightarrow>
                               (if operation = GenerateQuestions then
                                  (case res of
                                     None \<Rightarrow> Inl (typeError ''split'')
                                   | Some r \<Rightarrow> Inr (Questions (parseQuestions r)))
                                else if operation = CreateFlashcards then
                                  (case res of
                                     None \<Rightarrow> Inl (typeError ''split'')
                                   | Some r \<Rightarrow> map_sum id Flashcards (parseFlashcards r))
                                else Inr (case res of None \<Rightarrow> Undefined | Some r \<Rightarrow> Text r)))))),
             [Fetched (url req)])))"

subsection \<open>The resolution loop\<close>

definition updateStats :: "string \<Rightarrow> stats \<Rightarrow> stats" where
  "updateStats m st =
     (if m = ''Built-in AI'' then st\<lparr>builtInCalls := builtInCalls st + 1\<rparr>
      else if m = ''Gemini API'' then st\<lparr>cloudCalls := cloudCalls st + 1\<rparr>
      else st\<lparr>fallbackCalls := fallbackCalls st + 1\<rparr>)"

type_synonym strategy =
  "string \<times> (string \<Rightarrow> operation \<Rightarrow> options \<Rightarrow> (jserror + jsresult) \<times> event list)"

text \<open>
  \<^verbatim>\<open>for (const strategy of strategies) { try { ... if (result) { ... return } } catch { ... } }\<close>
  followed by \<^verbatim>\<open>throw new Error('All AI processing strategies failed')\<close>. The loop threads the
  statistics and the effects so far.
\<close>

fun runStrategies ::
  "strategy list \<Rightarrow> string \<Rightarrow> operation \<Rightarrow> options \<Rightarrow> stats \<Rightarrow> event list
   \<Rightarrow> (jserror + outcome) \<times> stats \<times> event list" where
  "runStrategies [] txt operation opts st trace =
     (Inl (Error ''All AI processing strategies failed''), st, trace)"
| "runStrategies ((name, run) # rest) txt operation opts st trace =
     (case run txt operation opts of
        (Inr res, evs) \<Rightarrow>
          (if truthy res then
             (let st' = updateStats name st in
              (Inr \<lparr>result = res, methodName = name, statsReturned = st'\<rparr>, st',
               trace @ [Trying name] @ evs @ [Succeeded name]))
           else runStrategies rest txt operation opts st (trace @ [Trying name] @ evs))
      | (Inl err, evs) \<Rightarrow>
          runStrategies rest txt operation opts (st\<lparr>errors := errors st + 1\<rparr>)
            (trace @ [Trying name] @ evs @ [Failed name (message err)]))"

definition strategies :: "hybrid \<Rightarrow> env \<Rightarrow> strategy list" where
  "strategies h e =
     [(''Built-in AI'', processWithBuiltInAI h e),
      (''Gemini API'', processWithGeminiAPI h e),
      (''Basic Fallback'', processWithBasicFallback)]"

text \<open>
  \<^verbatim>\<open>process(text, operation, options)\<close> on an initialized manager: the returned or raised value,
  the manager afterwards, and the effects in order.
\<close>

definition process ::
  "hybrid \<Rightarrow> env \<Rightarrow> string \<Rightarrow> operation \<Rightarrow> options \<Rightarrow> (jserror + outcome) \<times> hybrid \<times> event list" where
  "process h e txt operation opts =
     (case runStrategies (strategies h e) txt operation opts (stats h) [] of
        (r, st', trace) \<Rightarrow> (r, h\<lparr>stats := st'\<rparr>, trace))"

subsection \<open>The capability check\<close>

text \<open>
  What the capability checks see of the browser: for each API of the global \<^verbatim>\<open>ai\<close> object,
  \<open>None\<close> when the API is absent, else what \<^verbatim>\<open>await api.capabilities()\<close> gives or raises.
  \<open>canTranslate\<close> tells whether \<^verbatim>\<open>translation.canTranslate\<close> exists.
\<close>

datatype capability = Capability (available: string)

record browser =
  languageModelCaps :: "(jserror + capability) option"
  summarizerCaps :: "(jserror + capability) option"
  writerCaps :: "(jserror + capability) option"
  rewriterCaps :: "(jserror + capability) option"
  canTranslate :: bool

definition checkBuiltInAI :: "browser \<Rightarrow> hybrid \<Rightarrow> hybrid \<times> event list" where
  "checkBuiltInAI b h =
     (case languageModelCaps b of
        Some (Inr c) \<Rightarrow>
          (let h' = h\<lparr>isBuiltInAIAvailable := (available c = ''readily'')\<rparr> in
           if \<not> isBuiltInAIAvailable h' \<and> available c = ''after-download''
           then (h', [ModelCreateCalled])
           else (h', []))
      | Some (Inl error) \<Rightarrow> (h\<lparr>isBuiltInAIAvailable := False\<rparr>, [])
      | None \<Rightarrow> (h\<lparr>isBuiltInAIAvailable := False\<rparr>, []))"

section \<open>AIManager: the Gemini response\<close>

record geminiConfig =
  apiKey :: "string option"
  endpoint :: string

text \<open>
  The block under \<^verbatim>\<open>if (response.ok)\<close> of \<^verbatim>\<open>AIManager.geminiPrompt\<close>. With a first candidate:
  if \<^verbatim>\<open>candidate?.content?.parts?.length > 0\<close> and the text of the first part is truthy, that
  text is returned; else if \<^verbatim>\<open>candidate?.output\<close> is truthy, it is returned. In every other case
  the error is raised.
\<close>

definition invalidStructure :: jserror where
  "invalidStructure = Error ''Invalid response structure from Gemini API - check console for details''"

definition firstPartText :: "candidate \<Rightarrow> string option" where
  "firstPartText candidate =
     (case content candidate of
        Some ct \<Rightarrow>
          (case parts ct of
             Some (p # _) \<Rightarrow> (case partText p of Some t \<Rightarrow> if t \<noteq> [] then Some t else None
                             | None \<Rightarrow> None)
           | _ \<Rightarrow> None)
      | None \<Rightarrow> None)"

definition geminiResponseText :: "body \<Rightarrow> jserror + string" where
  "geminiResponseText data =
     (case candidates data of
        Some (candidate # _) \<Rightarrow>
          (case firstPartText candidate of
             Some t \<Rightarrow> Inr t
           | None \<Rightarrow>
               (case candidateOutput candidate of
                  Some out \<Rightarrow> if out \<noteq> [] then Inr out else Inl invalidStructure
                | None \<Rightarrow> Inl invalidStructure))
      | _ \<Rightarrow> Inl invalidStructure)"

text \<open>\<^verbatim>\<open>options.systemPrompt ? `${options.systemPrompt}\n\n${text}` : text\<close>.\<close>

definition withSystemPrompt :: "options \<Rightarrow> string \<Rightarrow> string" where
  "withSystemPrompt opts txt =
     (if orStr (systemPrompt opts) [] \<noteq> []
      then orStr (systemPrompt opts) [] @ [CHR 0x0A, CHR 0x0A] @ txt else txt)"

definition geminiRequest :: "string \<Rightarrow> string option \<Rightarrow> string \<Rightarrow> options \<Rightarrow> request" where
  "geminiRequest ep key txt opts =
     \<lparr>url = ep @ ''?key='' @ (case key of Some k \<Rightarrow> k | None \<Rightarrow> ''null''),
      promptText = PromptString (withSystemPrompt opts txt),
      generationTemperature = orNum (temperature opts) (JsNumber True ''0.7''),
      maxOutputTokens = orNum (maxTokens opts) (JsNumber True ''1024'')\<rparr>"

definition AIManager_geminiPrompt ::
  "geminiConfig \<Rightarrow> (request \<Rightarrow> jserror + response) \<Rightarrow> string \<Rightarrow> options \<Rightarrow> jserror + string" where
  "AIManager_geminiPrompt cfg fetchFn txt opts =
     (case fetchFn (geminiRequest (endpoint cfg) (apiKey cfg) txt opts) of
        Inl err \<Rightarrow> Inl err
      | Inr resp \<Rightarrow>
          (case json resp of
             Inl err \<Rightarrow> Inl err
           | Inr data \<Rightarrow>
               if ok resp then geminiResponseText data
               else Inl (Error (orStr (errorMessage data)
                                  (''Gemini API request failed: '' @ showNat (status resp))))))"

section \<open>AIManagerEnhanced\<close>

text \<open>A language-model session answers a prompt or raises.\<close>

type_synonym session = "string \<Rightarrow> jserror + string"

record capabilities =
  promptCap :: "capability option"
  summarizerCap :: "capability option"
  writerCap :: "capability option"
  rewriterCap :: "capability option"
  translatorCap :: "capability option"
  proofreaderCap :: "capability option"

record hybridConfig =
  enabled :: bool
  geminiApiKey' :: "string option"
  preferBuiltIn :: bool
  autoFallback :: bool

record enhancedStats =
  builtInCalls' :: nat
  geminiCalls :: nat
  fallbackCalls' :: nat
  errors' :: nat
  lastMethod :: "string option"

record enhanced =
  capabilities :: capabilities
  promptSession :: "session option"
  hybridConfig :: hybridConfig
  stats' :: enhancedStats

text \<open>
  \<^verbatim>\<open>checkCapabilities\<close>: a capability is written only when its API is present; it becomes
  \<^verbatim>\<open>null\<close> when the check raises.
\<close>

definition probeApi :: "(jserror + capability) option \<Rightarrow> capability option \<Rightarrow> capability option" where
  "probeApi api old = (case api of None \<Rightarrow> old | Some (Inl error) \<Rightarrow> None | Some (Inr c) \<Rightarrow> Some c)"

definition checkCapabilities :: "browser \<Rightarrow> enhanced \<Rightarrow> enhanced" where
  "checkCapabilities b m =
     (let c = capabilities m;
          c = c\<lparr>promptCap := probeApi (languageModelCaps b) (promptCap c)\<rparr>;
          c = c\<lparr>summarizerCap := probeApi (summarizerCaps b) (summarizerCap c)\<rparr>;
          c = c\<lparr>writerCap := probeApi (writerCaps b) (writerCap c)\<rparr>;
          c = c\<lparr>rewriterCap := probeApi (rewriterCaps b) (rewriterCap c)\<rparr>;
          c = (if canTranslate b then c\<lparr>translatorCap := Some (Capability ''readily'')\<rparr> else c);
          c = (if rewriterCaps b \<noteq> None then c\<lparr>proofreaderCap := rewriterCap c\<rparr> else c)
      in m\<lparr>capabilities := c\<rparr>)"

text \<open>
  \<^verbatim>\<open>getPromptSession\<close>: \<^verbatim>\<open>null\<close> (\<open>Inr None\<close>) sends the caller to the fallbacks. The session
  is created with \<^verbatim>\<open>{ systemPrompt: options.systemPrompt || default, ...options }\<close>, where a
  \<^verbatim>\<open>systemPrompt\<close> present in the options overrides the default; it is kept for later calls.
\<close>

definition getPromptSession ::
  "(string \<Rightarrow> options \<Rightarrow> jserror + session) \<Rightarrow> enhanced \<Rightarrow> options
   \<Rightarrow> (jserror + session option) \<times> enhanced" where
  "getPromptSession create m opts =
     (if (case promptCap (capabilities m) of None \<Rightarrow> True | Some c \<Rightarrow> available c \<noteq> ''readily'') then
        (if \<not> enabled (hybridConfig m)
         then (Inl (Error ''Prompt API is not available. Please enable Chrome AI features.''), m)
         else (Inr None, m))
      else if promptSession m = None \<or> forceNew opts then
        (case create (case systemPrompt opts of
                        None \<Rightarrow> ''You are a helpful AI study assistant.''
                      | Some sp \<Rightarrow> sp) opts of
           Inr s \<Rightarrow> (Inr (Some s), m\<lparr>promptSession := Some s\<rparr>)
         | Inl error \<Rightarrow>
             (if \<not> enabled (hybridConfig m)
              then (Inl (Error (''Prompt API error: '' @ message error)), m)
              else (Inr None, m)))
      else (Inr (promptSession m), m))"

definition endpoints :: "string list" where
  "endpoints =
     [''https://generativelanguage.googleapis.com/v1beta/models/gemini-1.5-flash-latest:generateContent'',
      ''https://generativelanguage.googleapis.com/v1beta/models/gemini-1.5-pro-latest:generateContent'',
      ''https://generativelanguage.googleapis.com/v1beta/models/gemini-pro:generateContent'']"

text \<open>
  One turn of the loop of \<^verbatim>\<open>AIManagerEnhanced.geminiPrompt\<close>: \<open>Inr\<close> is the value returned from
  an endpoint that answered, \<open>Inl\<close> the new \<^verbatim>\<open>lastError\<close> of one that failed (the message of the
  error raised by \<^verbatim>\<open>fetch\<close>, by \<^verbatim>\<open>response.json()\<close> or by reading the payload, or the message of
  a response that is not ok).
\<close>

definition tryEndpoint ::
  "(request \<Rightarrow> jserror + response) \<Rightarrow> string option \<Rightarrow> string \<Rightarrow> options \<Rightarrow> string
   \<Rightarrow> string + string option" where
  "tryEndpoint fetchFn key txt opts ep =
     (case fetchFn (geminiRequest ep key txt opts) of
        Inl error \<Rightarrow> Inl (message error)
      | Inr resp \<Rightarrow>
          (if ok resp then
             (case json resp of
                Inl error \<Rightarrow> Inl (message error)
              | Inr data \<Rightarrow>
                  (case extractText data of
                     Inl error \<Rightarrow> Inl (message error)
                   | Inr t \<Rightarrow> Inr t))
           else
             (case json resp of
                Inl error \<Rightarrow> Inl (message error)
              | Inr error \<Rightarrow> Inl (orStr (errorMessage error) (statusText resp)))))"

text \<open>
  The loop over the endpoints and the \<^verbatim>\<open>throw\<close> after it; \<open>lastError\<close> starts as \<^verbatim>\<open>null\<close>. The
  second component lists the URLs fetched, in order.
\<close>

fun geminiLoop ::
  "(request \<Rightarrow> jserror + response) \<Rightarrow> string option \<Rightarrow> string \<Rightarrow> options \<Rightarrow> string list
   \<Rightarrow> string option \<Rightarrow> event list \<Rightarrow> (jserror + string option) \<times> event list" where
  "geminiLoop fetchFn key txt opts [] lastError trace =
     (Inl (Error (''Gemini API error: '' @ (case lastError of None \<Rightarrow> ''null'' | Some msg \<Rightarrow> msg))),
      trace)"
| "geminiLoop fetchFn key txt opts (ep # eps) lastError trace =
     (case tryEndpoint fetchFn key txt opts ep of
        Inr t \<Rightarrow> (Inr t, trace @ [Fetched (url (geminiRequest ep key txt opts))])
      | Inl msg \<Rightarrow>
          geminiLoop fetchFn key txt opts eps (Some msg)
            (trace @ [Fetched (url (geminiRequest ep key txt opts))]))"

definition AIManagerEnhanced_geminiPrompt ::
  "(request \<Rightarrow> jserror + response) \<Rightarrow> enhanced \<Rightarrow> string \<Rightarrow> options
   \<Rightarrow> (jserror + string option) \<times> event list" where
  "AIManagerEnhanced_geminiPrompt fetchFn m txt opts =
     geminiLoop fetchFn (geminiApiKey' (hybridConfig m)) txt opts endpoints None []"

definition basicPrompt :: "string \<Rightarrow> options \<Rightarrow> string" where
  "basicPrompt txt opts =
     ''[Basic response - AI not available]'' @ [CHR 0x0A] @ ''Your input: '' @ take 100 txt @ ''...''
     @ [CHR 0x0A, CHR 0x0A] @ ''Please configure Gemini API key for better results.''"

text \<open>
  The two fallbacks of \<^verbatim>\<open>AIManagerEnhanced.prompt\<close> after the built-in attempt: the Gemini API
  when hybrid mode is enabled and a key is configured, then the basic response.
\<close>

definition promptFallbacks ::
  "(request \<Rightarrow> jserror + response) \<Rightarrow> enhanced \<Rightarrow> string \<Rightarrow> options
   \<Rightarrow> string option \<times> enhanced \<times> event list" where
  "promptFallbacks fetchFn m txt opts =
     (let basic = (\<lambda>m evs.
            (Some (basicPrompt txt opts),
             m\<lparr>stats' := (stats' m)\<lparr>fallbackCalls' := fallbackCalls' (stats' m) + 1,
                                             lastMethod := Some ''fallback''\<rparr>\<rparr>,
             evs))
      in if enabled (hybridConfig m) \<and> orStr (geminiApiKey' (hybridConfig m)) [] \<noteq> [] then
           (case AIManagerEnhanced_geminiPrompt fetchFn m txt opts of
              (Inr res, evs) \<Rightarrow>
                (res,
                 m\<lparr>stats' := (stats' m)\<lparr>geminiCalls := geminiCalls (stats' m) + 1,
                                                 lastMethod := Some ''gemini''\<rparr>\<rparr>,
                 evs)
            | (Inl error, evs) \<Rightarrow>
                basic (m\<lparr>stats' := (stats' m)\<lparr>errors' := errors' (stats' m) + 1\<rparr>\<rparr>) evs)
         else basic m [])"

definition AIManagerEnhanced_prompt ::
  "(string \<Rightarrow> options \<Rightarrow> jserror + session) \<Rightarrow> (request \<Rightarrow> jserror + response) \<Rightarrow> enhanced
   \<Rightarrow> string \<Rightarrow> options \<Rightarrow> string option \<times> enhanced \<times> event list" where
  "AIManagerEnhanced_prompt create fetchFn m txt opts =
     (case getPromptSession create m opts of
        (Inr (Some s), m1) \<Rightarrow>
          (case s txt of
             Inr res \<Rightarrow>
               (Some res,
                m1\<lparr>stats' := (stats' m1)\<lparr>builtInCalls' := builtInCalls' (stats' m1) + 1,
                                                   lastMethod := Some ''built-in''\<rparr>\<rparr>,
                [])
           | Inl error \<Rightarrow>
               promptFallbacks fetchFn
                 (m1\<lparr>stats' := (stats' m1)\<lparr>errors' := errors' (stats' m1) + 1\<rparr>\<rparr>)
                 txt opts)
      | (Inr None, m1) \<Rightarrow> promptFallbacks fetchFn m1 txt opts
      | (Inl error, m1) \<Rightarrow>
          promptFallbacks fetchFn
            (m1\<lparr>stats' := (stats' m1)\<lparr>errors' := errors' (stats' m1) + 1\<rparr>\<rparr>)
            txt opts)"

section \<open>Observations on a resolution\<close>

text \<open>
  Notions in which the properties of the resolution loop are stated. An attempt succeeds when the
  strategy raises nothing and its result passes \<^verbatim>\<open>if (result)\<close>; the lines an attempt leaves in
  the trace are those \<open>runStrategies\<close> writes for it; the backend uses of a trace are its
  events other than console lines.
\<close>

definition succeeds :: "(jserror + jsresult) \<times> event list \<Rightarrow> bool" where
  "succeeds a = (case fst a of Inl err \<Rightarrow> False | Inr res \<Rightarrow> truthy res)"

definition raised :: "(jserror + jsresult) \<times> event list \<Rightarrow> nat" where
  "raised a = (case fst a of Inl err \<Rightarrow> 1 | Inr res \<Rightarrow> 0)"

definition attemptTrace :: "string \<Rightarrow> (jserror + jsresult) \<times> event list \<Rightarrow> event list" where
  "attemptTrace name a =
     [Trying name] @ snd a @
     (case fst a of
        Inl err \<Rightarrow> [Failed name (message err)]
      | Inr res \<Rightarrow> if truthy res then [Succeeded name] else [])"

fun isBackendUse :: "event \<Rightarrow> bool" where
  "isBackendUse (BuiltInUsed operation t) = True"
| "isBackendUse (Fetched u) = True"
| "isBackendUse (BasicFallbackUsed operation t) = True"
| "isBackendUse ev = False"

definition backendUses :: "event list \<Rightarrow> event list" where
  "backendUses trace = filter isBackendUse trace"

text \<open>The URL \<^verbatim>\<open>processWithGeminiAPI\<close> fetches.\<close>

definition geminiProUrl :: "hybrid \<Rightarrow> string" where
  "geminiProUrl h =
     ''https://generativelanguage.googleapis.com/v1beta/models/gemini-pro:generateContent?key=''
     @ orStr (geminiApiKey h) []"

section \<open>The extraction paths of the specification\<close>

text \<open>
  The specification's Response Normalizer, in its own words, for comparison with the source:
  path (a) is \<^verbatim>\<open>candidates[0].content.parts[0].text\<close>, path (b) is \<^verbatim>\<open>candidates[0].output\<close>; the
  first path that yields a non-empty string gives the result, and the payload is invalid when
  neither does.
\<close>

definition specPathA :: "body \<Rightarrow> string option" where
  "specPathA data =
     (case candidates data of
        Some (c # _) \<Rightarrow>
          (case content c of
             Some ct \<Rightarrow> (case parts ct of Some (p # _) \<Rightarrow> partText p | _ \<Rightarrow> None)
           | None \<Rightarrow> None)
      | _ \<Rightarrow> None)"

definition specPathB :: "body \<Rightarrow> string option" where
  "specPathB data = (case candidates data of Some (c # _) \<Rightarrow> candidateOutput c | _ \<Rightarrow> None)"

definition specNormalize :: "body \<Rightarrow> string option" where
  "specNormalize data =
     (case filter (\<lambda>s. s \<noteq> []) (List.map_filter id [specPathA data, specPathB data]) of
        [] \<Rightarrow> None
      | s # _ \<Rightarrow> Some s)"

section \<open>Concrete inputs\<close>

text \<open>Fixed values at which the properties below are evaluated.\<close>

definition noOptions :: options where
  "noOptions =
     \<lparr>lengthOpt = None, format = None, sourceLanguage = None, targetLanguage = None, count = None,
      difficulty = None, level = None, tone = None, temperature = None, maxTokens = None,
      systemPrompt = None, forceNew = False\<rparr>"

definition freshStats :: stats where
  "freshStats = \<lparr>builtInCalls = 0, cloudCalls = 0, fallbackCalls = 0, errors = 0\<rparr>"

text \<open>A manager as the constructor leaves it: no built-in AI, no API key.\<close>

definition freshHybrid :: hybrid where
  "freshHybrid = \<lparr>isBuiltInAIAvailable = False, geminiApiKey = None, stats = freshStats\<rparr>"

text \<open>The same manager with an API key configured.\<close>

definition keyedHybrid :: hybrid where
  "keyedHybrid = freshHybrid\<lparr>geminiApiKey := Some ''test-key''\<rparr>"

text \<open>A browser with no usable \<^verbatim>\<open>ai\<close> object and no network.\<close>

definition noAi :: ai_api where
  "noAi =
     \<lparr>summarizer = (\<lambda>_ _ _. Inl (Error ''ai is not defined'')),
      translator = (\<lambda>_ _ _. Inl (Error ''ai is not defined'')),
      languageModel = (\<lambda>_. Inl (Error ''ai is not defined'')),
      proofreader = None,
      rewriter = None\<rparr>"

definition failingFetch :: "string \<Rightarrow> request \<Rightarrow> jserror + response" where
  "failingFetch msg req = Inl (Error msg)"

definition offline :: env where
  "offline = \<lparr>ai = noAi, fetch = failingFetch ''Failed to fetch''\<rparr>"

text \<open>The same browser with a network that times out.\<close>

definition timingOut :: env where
  "timingOut = \<lparr>ai = noAi, fetch = failingFetch ''The operation timed out''\<rparr>"

text \<open>An endpoint that answers every request with the same JSON body and status 200.\<close>

definition answering :: "body \<Rightarrow> request \<Rightarrow> jserror + response" where
  "answering data req = Inr (Response True 200 ''OK'' (Inr data))"

text \<open>A browser with no usable \<^verbatim>\<open>ai\<close> object whose network answers with the given body.\<close>

definition cloud :: "body \<Rightarrow> env" where
  "cloud data = \<lparr>ai = noAi, fetch = answering data\<rparr>"

text \<open>
  The payloads \<^verbatim>\<open>{"candidates":[{"content":{"parts":[{"text":"Hello"}]}}]}\<close>,
  \<^verbatim>\<open>{"candidates":[{"output":"Hi"}]}\<close> and \<^verbatim>\<open>{"candidates":[]}\<close>.
\<close>

definition helloPayload :: body where
  "helloPayload = Body (Some [Candidate (Some (Content (Some [Part (Some ''Hello'')]))) None]) None"

definition hiPayload :: body where
  "hiPayload = Body (Some [Candidate None (Some ''Hi'')]) None"

definition emptyPayload :: body where
  "emptyPayload = Body (Some []) None"

text \<open>The payload \<^verbatim>\<open>{"candidates":[{"content":{"parts":[{"text":""}]}}]}\<close>.\<close>

definition blankPayload :: body where
  "blankPayload = Body (Some [Candidate (Some (Content (Some [Part (Some [])]))) None]) None"

text \<open>
  The payload \<^verbatim>\<open>{"candidates":[{"content":{"parts":[{"text":"Q: a A: b"}]}}]}\<close>: a flashcard
  written without the \<^verbatim>\<open>|\<close> between question and answer.
\<close>

definition qaPayload :: body where
  "qaPayload = Body (Some [Candidate (Some (Content (Some [Part (Some ''Q: a A: b'')]))) None]) None"

text \<open>Options that ask for a summary of length \<^verbatim>\<open>toString\<close>.\<close>

definition lengthToString :: options where
  "lengthToString =
     \<lparr>lengthOpt = Some ''toString'', format = None, sourceLanguage = None, targetLanguage = None,
      count = None, difficulty = None, level = None, tone = None, temperature = None,
      maxTokens = None, systemPrompt = None, forceNew = False\<rparr>"

text \<open>An enhanced manager as the constructor leaves it, with an API key configured.\<close>

definition keyedEnhanced :: enhanced where
  "keyedEnhanced =
     \<lparr>capabilities = \<lparr>promptCap = None, summarizerCap = None, writerCap = None, rewriterCap = None,
              translatorCap = None, proofreaderCap = None\<rparr>,
      promptSession = None,
      hybridConfig = \<lparr>enabled = True, geminiApiKey' = Some ''test-key'', preferBuiltIn = True,
                autoFallback = True\<rparr>,
      stats' = \<lparr>builtInCalls' = 0, geminiCalls = 0, fallbackCalls' = 0, errors' = 0, lastMethod = None\<rparr>\<rparr>"

text \<open>No language model can be created.\<close>

definition noCreate :: "string \<Rightarrow> options \<Rightarrow> jserror + session" where
  "noCreate sp opts = Inl (Error ''ai is not defined'')"

text \<open>A network on which the first endpoint of the list is down and the others answer.\<close>

definition firstEndpointDown :: "body \<Rightarrow> request \<Rightarrow> jserror + response" where
  "firstEndpointDown data req =
     (if url req = hd endpoints @ ''?key=test-key'' then Inl (Error ''Failed to fetch'')
      else answering data req)"

text \<open>
  A network on which only the model \<^verbatim>\<open>gemini-1.5-flash-latest\<close>, the first endpoint of the list,
  answers; every other URL gets the status 404 with the error message \<^verbatim>\<open>model not found\<close>.
\<close>

definition onlyFlashAnswers :: "body \<Rightarrow> request \<Rightarrow> jserror + response" where
  "onlyFlashAnswers data req =
     (if url req = hd endpoints @ ''?key=test-key'' then answering data req
      else Inr (Response False 404 ''Not Found'' (Inr (Body None (Some ''model not found'')))))"

section \<open>Properties\<close>

subsection \<open>Helper facts\<close>

lemma sentScan_no_terminator:
  "\<not> list_ex isTerminator s \<Longrightarrow> sentScan body [] s = []"
  by (induction s arbitrary: body) simp_all

lemma sentenceCount_None:
  "sentenceCount len = None \<longleftrightarrow> len \<in> set inheritedMembers"
  by (auto simp: sentenceCount_def inheritedMembers_def)

lemma basicSummarize_no_terminator:
  assumes "\<not> list_ex isTerminator txt"
  shows "basicSummarize txt opts =
           (if orStr (lengthOpt opts) ''medium'' \<in> set inheritedMembers then '' '' else [])"
proof (cases "sentenceCount (orStr (lengthOpt opts) ''medium'')")
  case None
  then have "orStr (lengthOpt opts) ''medium'' \<in> set inheritedMembers"
    using sentenceCount_None [of "orStr (lengthOpt opts) ''medium''"] by simp
  then show ?thesis
    using sentScan_no_terminator [OF assms, of "[]"] None
    by (simp add: basicSummarize_def matchSentences_def elementOrUndefined_def)
next
  case (Some cnt)
  then have "orStr (lengthOpt opts) ''medium'' \<notin> set inheritedMembers"
    using sentenceCount_None [of "orStr (lengthOpt opts) ''medium''"] by simp
  then show ?thesis
    using sentScan_no_terminator [OF assms, of "[]"] Some
    by (simp add: basicSummarize_def matchSentences_def)
qed

lemma noOptions_length: "orStr (lengthOpt noOptions) ''medium'' = ''medium''"
  by (simp add: noOptions_def)

lemma medium_not_inherited: "''medium'' \<notin> set inheritedMembers"
  by (simp add: inheritedMembers_def)

lemma builtIn_unavailable:
  "\<not> isBuiltInAIAvailable h \<Longrightarrow>
   processWithBuiltInAI h e txt operation opts = (Inl (Error ''Built-in AI not available''), [])"
  by (simp add: processWithBuiltInAI_def)

lemma gemini_unconfigured:
  "orStr (geminiApiKey h) [] = [] \<Longrightarrow>
   processWithGeminiAPI h e txt operation opts = (Inl (Error ''Gemini API key not configured''), [])"
  by (simp add: processWithGeminiAPI_def)

lemma not_succeeds_unavailable:
  "\<not> isBuiltInAIAvailable h \<Longrightarrow> \<not> succeeds (processWithBuiltInAI h e txt operation opts)"
  by (simp add: builtIn_unavailable succeeds_def)

lemma not_succeeds_unconfigured:
  "orStr (geminiApiKey h) [] = [] \<Longrightarrow> \<not> succeeds (processWithGeminiAPI h e txt operation opts)"
  by (simp add: gemini_unconfigured succeeds_def)

lemma freshHybrid_simps:
  "\<not> isBuiltInAIAvailable freshHybrid" "orStr (geminiApiKey freshHybrid) [] = []"
  "stats freshHybrid = freshStats"
  by (simp_all add: freshHybrid_def)

lemma keyedHybrid_simps:
  "\<not> isBuiltInAIAvailable keyedHybrid" "orStr (geminiApiKey keyedHybrid) [] = ''test-key''"
  "stats keyedHybrid = freshStats"
  by (simp_all add: keyedHybrid_def freshHybrid_def)

text \<open>One turn of the loop, in terms of the attempt.\<close>

lemma runStrategies_step:
  "runStrategies ((name, run) # rest) txt operation opts st trace =
     (if succeeds (run txt operation opts)
      then (Inr \<lparr>result = projr (fst (run txt operation opts)), methodName = name,
                 statsReturned = updateStats name st\<rparr>,
            updateStats name st, trace @ attemptTrace name (run txt operation opts))
      else runStrategies rest txt operation opts
             (st\<lparr>errors := errors st + raised (run txt operation opts)\<rparr>)
             (trace @ attemptTrace name (run txt operation opts)))"
  by (cases "run txt operation opts")
     (auto simp: succeeds_def raised_def attemptTrace_def Let_def split: sum.splits)

text \<open>The only error the loop raises is its own.\<close>

lemma runStrategies_error:
  "fst (runStrategies ss txt operation opts st trace) = Inl err \<Longrightarrow>
   err = Error ''All AI processing strategies failed''"
  by (induction ss arbitrary: st trace) (auto simp: Let_def split: prod.splits sum.splits if_splits)

lemma process_error:
  "fst (process h e txt operation opts) = Inl err \<Longrightarrow>
   err = Error ''All AI processing strategies failed''"
  using runStrategies_error [of "strategies h e" "txt" operation opts "stats h" "[]" err]
  by (simp add: process_def split: prod.splits)

text \<open>The trace and the served result of a resolution, attempt by attempt.\<close>

lemma process_trace:
  "snd (snd (process h e txt operation opts)) =
     attemptTrace ''Built-in AI'' (processWithBuiltInAI h e txt operation opts) @
     (if succeeds (processWithBuiltInAI h e txt operation opts) then []
      else attemptTrace ''Gemini API'' (processWithGeminiAPI h e txt operation opts) @
           (if succeeds (processWithGeminiAPI h e txt operation opts) then []
            else attemptTrace ''Basic Fallback'' (processWithBasicFallback txt operation opts)))"
  unfolding process_def strategies_def
  by (simp add: runStrategies_step del: runStrategies.simps(2))

lemma process_served:
  "map_sum id (\<lambda>out. (result out, methodName out)) (fst (process h e txt operation opts)) =
     (if succeeds (processWithBuiltInAI h e txt operation opts)
      then Inr (projr (fst (processWithBuiltInAI h e txt operation opts)), ''Built-in AI'')
      else if succeeds (processWithGeminiAPI h e txt operation opts)
      then Inr (projr (fst (processWithGeminiAPI h e txt operation opts)), ''Gemini API'')
      else if succeeds (processWithBasicFallback txt operation opts)
      then Inr (projr (fst (processWithBasicFallback txt operation opts)), ''Basic Fallback'')
      else Inl (Error ''All AI processing strategies failed''))"
  unfolding process_def strategies_def
  by (simp add: runStrategies_step del: runStrategies.simps(2))

lemma process_method:
  "map_sum id methodName (fst (process h e txt operation opts))
   = map_sum id snd (map_sum id (\<lambda>out. (result out, methodName out))
       (fst (process h e txt operation opts)))"
  by (cases "fst (process h e txt operation opts)") simp_all

lemma builtIn_events:
  "snd (processWithBuiltInAI h e txt operation opts)
   = (if isBuiltInAIAvailable h then [BuiltInUsed operation txt] else [])"
  by (simp add: processWithBuiltInAI_def)

lemma gemini_events:
  "snd (processWithGeminiAPI h e txt operation opts)
   = (if orStr (geminiApiKey h) [] \<noteq> [] then [Fetched (geminiProUrl h)] else [])"
  by (simp add: processWithGeminiAPI_def geminiProUrl_def Let_def)

lemma basic_events:
  "snd (processWithBasicFallback txt operation opts) = [BasicFallbackUsed operation txt]"
  by (simp add: processWithBasicFallback_def)

lemma backendUses_attemptTrace:
  "backendUses (attemptTrace name a) = backendUses (snd a)"
  by (simp add: backendUses_def attemptTrace_def split: sum.splits)

lemma backendUses_append: "backendUses (xs @ ys) = backendUses xs @ backendUses ys"
  by (simp add: backendUses_def)

lemma backendUses_simps:
  "backendUses [] = []"
  "backendUses [BuiltInUsed operation t] = [BuiltInUsed operation t]"
  "backendUses [Fetched u] = [Fetched u]"
  "backendUses [BasicFallbackUsed operation t] = [BasicFallbackUsed operation t]"
  by (simp_all add: backendUses_def)

lemma process_backendUses:
  "backendUses (snd (snd (process h e txt operation opts))) =
     (if isBuiltInAIAvailable h then [BuiltInUsed operation txt] else []) @
     (if succeeds (processWithBuiltInAI h e txt operation opts) then []
      else (if orStr (geminiApiKey h) [] \<noteq> [] then [Fetched (geminiProUrl h)] else []) @
           (if succeeds (processWithGeminiAPI h e txt operation opts) then []
            else [BasicFallbackUsed operation txt]))"
  by (simp add: process_trace backendUses_append backendUses_attemptTrace builtIn_events
      gemini_events basic_events backendUses_simps)

lemma gemini_hello:
  "processWithGeminiAPI keyedHybrid (cloud helloPayload) ''Hi.'' Summarize noOptions
   = (Inr (Text ''Hello''), [Fetched (geminiProUrl keyedHybrid)])"
  by (simp add: processWithGeminiAPI_def keyedHybrid_simps cloud_def answering_def
      helloPayload_def extractText_def geminiProUrl_def Let_def)

lemma gemini_raises_step:
  assumes "\<not> succeeds (processWithBuiltInAI h e txt operation opts)"
    and "fst (processWithGeminiAPI h e txt operation opts) = Inl err"
    and "succeeds (processWithBasicFallback txt operation opts)"
  shows "process h e txt operation opts =
     (Inr \<lparr>result = projr (fst (processWithBasicFallback txt operation opts)),
           methodName = ''Basic Fallback'',
           statsReturned = (stats h)\<lparr>errors := errors (stats h)
                               + raised (processWithBuiltInAI h e txt operation opts) + 1,
                             fallbackCalls := fallbackCalls (stats h) + 1\<rparr>\<rparr>,
      h\<lparr>stats := (stats h)\<lparr>errors := errors (stats h)
                               + raised (processWithBuiltInAI h e txt operation opts) + 1,
                             fallbackCalls := fallbackCalls (stats h) + 1\<rparr>\<rparr>,
      attemptTrace ''Built-in AI'' (processWithBuiltInAI h e txt operation opts)
      @ [Trying ''Gemini API''] @ snd (processWithGeminiAPI h e txt operation opts)
      @ [Failed ''Gemini API'' (message err), Trying ''Basic Fallback'',
         BasicFallbackUsed operation txt, Succeeded ''Basic Fallback''])"
proof -
  have b: "\<not> succeeds (processWithGeminiAPI h e txt operation opts)"
    "raised (processWithGeminiAPI h e txt operation opts) = 1"
    "attemptTrace ''Gemini API'' (processWithGeminiAPI h e txt operation opts)
     = [Trying ''Gemini API''] @ snd (processWithGeminiAPI h e txt operation opts)
       @ [Failed ''Gemini API'' (message err)]"
    using assms(2) by (simp_all add: succeeds_def raised_def attemptTrace_def)
  have c: "attemptTrace ''Basic Fallback'' (processWithBasicFallback txt operation opts)
     = [Trying ''Basic Fallback'', BasicFallbackUsed operation txt, Succeeded ''Basic Fallback'']"
    using assms(3) by (simp add: succeeds_def attemptTrace_def processWithBasicFallback_def)
  show ?thesis
    unfolding process_def strategies_def
    by (simp add: runStrategies_step assms(1,3) b c updateStats_def del: runStrategies.simps(2))
qed

lemma gemini_fetch_fails:
  "processWithGeminiAPI keyedHybrid \<lparr>ai = a, fetch = failingFetch msg\<rparr> txt operation opts
   = (Inl (Error msg), [Fetched (geminiProUrl keyedHybrid)])"
  by (simp add: processWithGeminiAPI_def keyedHybrid_simps failingFetch_def geminiProUrl_def Let_def)

lemma basic_summarize_Hi:
  "processWithBasicFallback ''Hi.'' Summarize noOptions
   = (Inr (Text ''Hi.''), [BasicFallbackUsed Summarize ''Hi.''])"
  by (simp add: processWithBasicFallback_def basicSummarize_def matchSentences_def
      isTerminator_def noOptions_def sentenceCount_def)

lemma builtIn_stats:
  "processWithBuiltInAI (h\<lparr>stats := s\<rparr>) e = processWithBuiltInAI h e"
  by (simp add: processWithBuiltInAI_def fun_eq_iff)

lemma gemini_stats:
  "processWithGeminiAPI (h\<lparr>stats := s\<rparr>) e = processWithGeminiAPI h e"
  by (simp add: processWithGeminiAPI_def fun_eq_iff)

lemma getPromptSession_usage:
  "getPromptSession create (m\<lparr>stats' := u\<rparr>) opts =
     (fst (getPromptSession create m opts), (snd (getPromptSession create m opts))\<lparr>stats' := u\<rparr>)"
  by (simp add: getPromptSession_def split: option.splits sum.splits)

lemma promptFallbacks_cong:
  "hybridConfig m' = hybridConfig m \<Longrightarrow> promptSession m' = promptSession m \<Longrightarrow>
   fst (promptFallbacks f m' txt opts) = fst (promptFallbacks f m txt opts)
   \<and> promptSession (fst (snd (promptFallbacks f m' txt opts)))
     = promptSession (fst (snd (promptFallbacks f m txt opts)))
   \<and> snd (snd (promptFallbacks f m' txt opts))
     = snd (snd (promptFallbacks f m txt opts))"
  by (simp add: promptFallbacks_def AIManagerEnhanced_geminiPrompt_def Let_def
      split: prod.splits sum.splits)

lemma promptFallbacks_usage:
  "fst (promptFallbacks f (m\<lparr>stats' := ua\<rparr>) txt opts)
     = fst (promptFallbacks f (m\<lparr>stats' := ub\<rparr>) txt opts)
   \<and> promptSession (fst (snd (promptFallbacks f (m\<lparr>stats' := ua\<rparr>) txt opts)))
     = promptSession (fst (snd (promptFallbacks f (m\<lparr>stats' := ub\<rparr>) txt opts)))
   \<and> snd (snd (promptFallbacks f (m\<lparr>stats' := ua\<rparr>) txt opts))
     = snd (snd (promptFallbacks f (m\<lparr>stats' := ub\<rparr>) txt opts))"
  by (rule promptFallbacks_cong) simp_all

lemma prompt_usage:
  "fst (AIManagerEnhanced_prompt create f (m\<lparr>stats' := u\<rparr>) txt opts)
     = fst (AIManagerEnhanced_prompt create f m txt opts)
   \<and> promptSession (fst (snd (AIManagerEnhanced_prompt create f (m\<lparr>stats' := u\<rparr>) txt opts)))
     = promptSession (fst (snd (AIManagerEnhanced_prompt create f m txt opts)))
   \<and> snd (snd (AIManagerEnhanced_prompt create f (m\<lparr>stats' := u\<rparr>) txt opts))
     = snd (snd (AIManagerEnhanced_prompt create f m txt opts))"
proof -
  obtain r m1 where g: "getPromptSession create m opts = (r, m1)"
    by (cases "getPromptSession create m opts")
  then have g': "getPromptSession create (m\<lparr>stats' := u\<rparr>) opts = (r, m1\<lparr>stats' := u\<rparr>)"
    by (simp add: getPromptSession_usage)
  have same: "m1\<lparr>stats' := stats' m1\<rparr> = m1" by simp
  note fail = promptFallbacks_usage
    [where m = m1 and ua = "u\<lparr>errors' := errors' u + 1\<rparr>"
       and ub = "(stats' m1)\<lparr>errors' := errors' (stats' m1) + 1\<rparr>"]
  note pass = promptFallbacks_usage [where m = m1 and ua = u and ub = "stats' m1", unfolded same]
  show ?thesis
  proof (cases r)
    case (Inl err)
    then show ?thesis
      unfolding AIManagerEnhanced_prompt_def g g' using fail by simp
  next
    case (Inr so)
    show ?thesis
    proof (cases so)
      case None
      then show ?thesis
        unfolding AIManagerEnhanced_prompt_def g g' using Inr pass by simp
    next
      case (Some sess)
      then show ?thesis
        unfolding AIManagerEnhanced_prompt_def g g' using Inr fail
        by (cases "sess txt") simp_all
    qed
  qed
qed

subsection \<open>The basic fallback is not a guaranteed success\<close>

text \<open>
  For a non-empty text the basic fallback returns a falsy result in one case only: a summary of
  a text in which the sentence pattern has no match, asked with a length that names no inherited
  member.
\<close>

lemma sentScan_nonempty_sentences:
  "s \<in> set (sentScan body terms inp) \<Longrightarrow> s \<noteq> []"
proof (induction inp arbitrary: body terms)
  case Nil
  then show ?case by (auto split: if_splits)
next
  case (Cons c cs)
  then show ?case by (auto split: if_splits)
qed

lemma joinWith_nonempty: "x \<noteq> [] \<Longrightarrow> joinWith sep (x # xs) \<noteq> []"
  by (cases xs) simp_all

lemma pickSentences_prefix: "\<exists>more. pickSentences i step cnt ss res = res @ more"
proof (induction i step cnt ss res rule: pickSentences.induct)
  case (1 i step cnt sentences result)
  show ?case
  proof (cases "0 < step \<and> i + 1 < length sentences")
    case True
    with "1.IH" obtain more where
      "pickSentences (i + step) step cnt sentences
         (if length result + 1 < cnt then result @ [sentences ! i] else result)
       = (if length result + 1 < cnt then result @ [sentences ! i] else result) @ more"
      by blast
    with True show ?thesis
      by (subst pickSentences.simps) (auto split: if_splits)
  next
    case False
    then show ?thesis by (subst pickSentences.simps) auto
  qed
qed

lemma basicSummarize_empty_iff:
  "basicSummarize txt opts = [] \<longleftrightarrow>
     matchSentences txt = [] \<and> orStr (lengthOpt opts) ''medium'' \<notin> set inheritedMembers"
proof (cases "matchSentences txt")
  case Nil
  then show ?thesis
    using sentenceCount_None [of "orStr (lengthOpt opts) ''medium''"]
    by (cases "sentenceCount (orStr (lengthOpt opts) ''medium'')")
       (simp_all add: basicSummarize_def elementOrUndefined_def)
next
  case (Cons s ss)
  then have s: "s \<noteq> []"
    using sentScan_nonempty_sentences [of s "[]" "[]" "txt"] by (simp add: matchSentences_def)
  show ?thesis
  proof (cases "sentenceCount (orStr (lengthOpt opts) ''medium'')")
    case None
    then show ?thesis
      using Cons s by (simp add: basicSummarize_def elementOrUndefined_def)
  next
    case (Some cnt)
    obtain more where more: "pickSentences (length (s # ss) div cnt) (length (s # ss) div cnt) cnt
        (s # ss) [s] = [s] @ more"
      using pickSentences_prefix by blast
    show ?thesis
      using Cons s Some joinWith_nonempty [of s " '' ''"] more
      by (simp add: basicSummarize_def Let_def joinWith_nonempty)
  qed
qed


lemma replaceWord_nonempty:
  "right \<noteq> [] \<Longrightarrow> s \<noteq> [] \<Longrightarrow> replaceWord wrong right pw 0 s \<noteq> []"
  by (cases s) auto

lemma capitalizeLines_nonempty: "s \<noteq> [] \<Longrightarrow> capitalizeLines a s \<noteq> []"
  by (cases s) auto

lemma capitalizeAfterDot_nonempty: "s \<noteq> [] \<Longrightarrow> capitalizeAfterDot s \<noteq> []"
  by (induction s rule: capitalizeAfterDot.induct) auto

lemma fold_corrections_nonempty:
  "\<forall>(wrong, right) \<in> set cs. right \<noteq> [] \<Longrightarrow> s \<noteq> [] \<Longrightarrow>
   fold (\<lambda>(wrong, right) corrected. replaceWord wrong right False 0 corrected) cs s \<noteq> []"
  by (induction cs arbitrary: s) (auto simp: replaceWord_nonempty)

lemma basicProofread_nonempty: "txt \<noteq> [] \<Longrightarrow> basicProofread txt \<noteq> []"
proof -
  assume "txt \<noteq> []"
  moreover have "\<forall>(wrong, right) \<in> set corrections. right \<noteq> []"
    by (simp add: corrections_def)
  ultimately have "fold (\<lambda>(wrong, right) corrected. replaceWord wrong right False 0 corrected)
      corrections txt \<noteq> []"
    by (rule fold_corrections_nonempty [rotated])
  then show ?thesis
    by (simp add: basicProofread_def Let_def capitalizeLines_nonempty capitalizeAfterDot_nonempty)
qed

lemma basic_fallback_succeeds_iff:
  "txt \<noteq> [] \<Longrightarrow>
   succeeds (processWithBasicFallback txt operation opts)
   \<longleftrightarrow> \<not> (operation = Summarize \<and> matchSentences txt = []
            \<and> orStr (lengthOpt opts) ''medium'' \<notin> set inheritedMembers)"
  by (cases operation)
     (simp_all add: succeeds_def processWithBasicFallback_def basicSummarize_empty_iff
        basicProofread_nonempty basicTranslate_def basicExplain_def Let_def)

text \<open>
  The length of the summary is looked up in an object literal. A length that names an inherited
  member, such as \<^verbatim>\<open>toString\<close>, makes \<^verbatim>\<open>count\<close> a function: the summary of a text without
  terminators is then one space (two \<^verbatim>\<open>undefined\<close> elements joined), which the loop takes for a
  success, and the summary of a single sentence is that sentence twice.
\<close>

lemma summarize_inherited_length:
  "basicSummarize ''hello'' lengthToString = '' ''"
  "basicSummarize ''Hi.'' lengthToString = ''Hi. Hi.''"
  "map_sum id (\<lambda>out. (result out, methodName out))
     (fst (process freshHybrid offline ''hello'' Summarize lengthToString))
   = Inr (Text '' '', ''Basic Fallback'')"
proof -
  show a: "basicSummarize ''hello'' lengthToString = '' ''"
    by (simp add: basicSummarize_def matchSentences_def isTerminator_def lengthToString_def
        sentenceCount_def inheritedMembers_def elementOrUndefined_def)
  show "basicSummarize ''Hi.'' lengthToString = ''Hi. Hi.''"
    by (simp add: basicSummarize_def matchSentences_def isTerminator_def lengthToString_def
        sentenceCount_def inheritedMembers_def elementOrUndefined_def)
  have "succeeds (processWithBasicFallback ''hello'' Summarize lengthToString)"
    "projr (fst (processWithBasicFallback ''hello'' Summarize lengthToString)) = Text '' ''"
    by (simp_all add: processWithBasicFallback_def succeeds_def a)
  then show "map_sum id (\<lambda>out. (result out, methodName out))
     (fst (process freshHybrid offline ''hello'' Summarize lengthToString))
   = Inr (Text '' '', ''Basic Fallback'')"
    by (simp add: process_served not_succeeds_unavailable not_succeeds_unconfigured
        freshHybrid_simps)
qed



text \<open>
  C1. With the basic fallback among the strategies, a request with non-empty text can still end
  in \<^verbatim>\<open>All AI processing strategies failed\<close>: summarizing a text without sentence terminators on
  a manager with no built-in AI and no API key.
\<close>

theorem basic_fallback_can_fail:
  "process freshHybrid offline ''Photosynthesis turns light into sugar'' Summarize noOptions =
     (Inl (Error ''All AI processing strategies failed''),
      freshHybrid\<lparr>stats := freshStats\<lparr>errors := 2\<rparr>\<rparr>,
      [Trying ''Built-in AI'', Failed ''Built-in AI'' ''Built-in AI not available'',
       Trying ''Gemini API'', Failed ''Gemini API'' ''Gemini API key not configured'',
       Trying ''Basic Fallback'',
       BasicFallbackUsed Summarize ''Photosynthesis turns light into sugar''])"
proof -
  have "\<not> list_ex isTerminator ''Photosynthesis turns light into sugar''"
    by (simp add: isTerminator_def)
  then have "basicSummarize ''Photosynthesis turns light into sugar'' noOptions = []"
    by (simp add: basicSummarize_no_terminator noOptions_length medium_not_inherited)
  then have fb:
    "processWithBasicFallback ''Photosynthesis turns light into sugar'' Summarize noOptions
     = (Inr (Text []), [BasicFallbackUsed Summarize ''Photosynthesis turns light into sugar''])"
    by (simp add: processWithBasicFallback_def)
  show ?thesis
    unfolding process_def strategies_def
    by (simp add: builtIn_unavailable gemini_unconfigured fb freshHybrid_simps freshStats_def)
qed

subsection \<open>Empty text\<close>

text \<open>
  C3 (as stated). The claim has \<^verbatim>\<open>process\<close> reject the empty text before any strategy is
  called. It does not: on a manager with no built-in AI and no API key, translating the empty
  text calls all three strategies with it and returns the basic fallback's answer.
\<close>

theorem empty_text_is_processed:
  "process freshHybrid offline [] Translate noOptions =
     (Inr \<lparr>result = Text (''Translation not available offline. Open Google Translate: ''
                           @ ''https://translate.google.com/?sl=en&tl=es&text=''),
           methodName = ''Basic Fallback'',
           statsReturned = freshStats\<lparr>fallbackCalls := 1, errors := 2\<rparr>\<rparr>,
      freshHybrid\<lparr>stats := freshStats\<lparr>fallbackCalls := 1, errors := 2\<rparr>\<rparr>,
      [Trying ''Built-in AI'', Failed ''Built-in AI'' ''Built-in AI not available'',
       Trying ''Gemini API'', Failed ''Gemini API'' ''Gemini API key not configured'',
       Trying ''Basic Fallback'', BasicFallbackUsed Translate [], Succeeded ''Basic Fallback''])"
proof -
  have fb: "processWithBasicFallback [] Translate noOptions
            = (Inr (Text (''Translation not available offline. Open Google Translate: ''
                           @ ''https://translate.google.com/?sl=en&tl=es&text='')),
               [BasicFallbackUsed Translate []])"
    by (simp add: processWithBasicFallback_def basicTranslate_def encodeURIComponent_def
        noOptions_def)
  show ?thesis
    unfolding process_def strategies_def
    by (simp add: builtIn_unavailable gemini_unconfigured fb freshHybrid_simps freshStats_def
        updateStats_def Let_def)
qed

text \<open>
  C3 (amended). \<^verbatim>\<open>process\<close> has no check of the text: a request with the empty text goes
  through the strategies in order like any other. Some backend is always used with it (the
  built-in AI if available; else the Gemini API if a key is configured; the basic fallback when
  neither succeeds), and the only error \<^verbatim>\<open>process\<close> raises for it is
  \<^verbatim>\<open>All AI processing strategies failed\<close>.
\<close>

theorem empty_text_reaches_backends:
  "backendUses (snd (snd (process h e [] operation opts))) =
     (if isBuiltInAIAvailable h then [BuiltInUsed operation []] else []) @
     (if succeeds (processWithBuiltInAI h e [] operation opts) then []
      else (if orStr (geminiApiKey h) [] \<noteq> [] then [Fetched (geminiProUrl h)] else []) @
           (if succeeds (processWithGeminiAPI h e [] operation opts) then []
            else [BasicFallbackUsed operation []]))
   \<and> backendUses (snd (snd (process h e [] operation opts))) \<noteq> []
   \<and> (\<forall>err. fst (process h e [] operation opts) = Inl err \<longrightarrow>
         err = Error ''All AI processing strategies failed'')"
proof -
  have "backendUses (snd (snd (process h e [] operation opts))) \<noteq> []"
    using not_succeeds_unavailable [of h e "[]" operation opts]
      not_succeeds_unconfigured [of h e "[]" operation opts]
    by (simp add: process_backendUses)
  then show ?thesis
    using process_error [of h e "[]" operation opts]
    by (simp add: process_backendUses)
qed

theorem empty_text_reaches_backends_witness:
  "backendUses (snd (snd (process freshHybrid offline [] Summarize noOptions)))
     = [BasicFallbackUsed Summarize []]
   \<and> fst (process freshHybrid offline [] Summarize noOptions)
     = Inl (Error ''All AI processing strategies failed'')"
proof -
  have fb: "processWithBasicFallback [] Summarize noOptions
            = (Inr (Text []), [BasicFallbackUsed Summarize []])"
    by (simp add: processWithBasicFallback_def basicSummarize_def matchSentences_def
        noOptions_length sentenceCount_def)
  have r: "fst (process freshHybrid offline [] Summarize noOptions)
     = Inl (Error ''All AI processing strategies failed'')"
    unfolding process_def strategies_def
    by (simp add: builtIn_unavailable gemini_unconfigured fb freshHybrid_simps)
  show ?thesis
    using empty_text_reaches_backends [of freshHybrid offline Summarize noOptions] r
    by (simp add: freshHybrid_simps not_succeeds_unavailable not_succeeds_unconfigured)
qed

subsection \<open>Priority order\<close>

text \<open>
  When the Gemini API succeeds after the built-in AI has raised, the whole of what \<^verbatim>\<open>process\<close>
  returns and leaves behind.
\<close>

lemma gemini_serves_step:
  assumes "fst (processWithBuiltInAI h e txt operation opts) = Inl err"
    and "succeeds (processWithGeminiAPI h e txt operation opts)"
  shows "process h e txt operation opts =
     (Inr \<lparr>result = projr (fst (processWithGeminiAPI h e txt operation opts)),
           methodName = ''Gemini API'',
           statsReturned = (stats h)\<lparr>errors := errors (stats h) + 1,
                             cloudCalls := cloudCalls (stats h) + 1\<rparr>\<rparr>,
      h\<lparr>stats := (stats h)\<lparr>errors := errors (stats h) + 1,
                             cloudCalls := cloudCalls (stats h) + 1\<rparr>\<rparr>,
      [Trying ''Built-in AI''] @ snd (processWithBuiltInAI h e txt operation opts)
      @ [Failed ''Built-in AI'' (message err), Trying ''Gemini API'']
      @ snd (processWithGeminiAPI h e txt operation opts) @ [Succeeded ''Gemini API''])"
proof -
  have a: "\<not> succeeds (processWithBuiltInAI h e txt operation opts)"
    "raised (processWithBuiltInAI h e txt operation opts) = 1"
    "attemptTrace ''Built-in AI'' (processWithBuiltInAI h e txt operation opts)
     = [Trying ''Built-in AI''] @ snd (processWithBuiltInAI h e txt operation opts)
       @ [Failed ''Built-in AI'' (message err)]"
    using assms(1) by (simp_all add: succeeds_def raised_def attemptTrace_def)
  have b: "attemptTrace ''Gemini API'' (processWithGeminiAPI h e txt operation opts)
     = [Trying ''Gemini API''] @ snd (processWithGeminiAPI h e txt operation opts)
       @ [Succeeded ''Gemini API'']"
    using assms(2) by (auto simp: succeeds_def attemptTrace_def split: sum.splits)
  show ?thesis
    unfolding process_def strategies_def
    by (simp add: runStrategies_step assms(2) a b updateStats_def del: runStrategies.simps(2))
qed

text \<open>
  C4 (as stated). The claim has the unavailable backend A never invoked, disqualified before
  dispatch. The loop of \<^verbatim>\<open>process\<close> makes no such test: it calls the strategy method
  \<^verbatim>\<open>processWithBuiltInAI\<close> first in every resolution, and it is that method which throws
  \<^verbatim>\<open>Built-in AI not available\<close>. With no built-in AI, an API key and an answering Gemini API,
  the built-in strategy is tried, logged as failed and counted in \<^verbatim>\<open>stats.errors\<close> before the
  Gemini API serves the request.
\<close>

theorem unavailable_strategy_is_called:
  "process keyedHybrid (cloud helloPayload) ''Hi.'' Summarize noOptions =
     (Inr \<lparr>result = Text ''Hello'', methodName = ''Gemini API'',
           statsReturned = freshStats\<lparr>cloudCalls := 1, errors := 1\<rparr>\<rparr>,
      keyedHybrid\<lparr>stats := freshStats\<lparr>cloudCalls := 1, errors := 1\<rparr>\<rparr>,
      [Trying ''Built-in AI'', Failed ''Built-in AI'' ''Built-in AI not available'',
       Trying ''Gemini API'', Fetched (geminiProUrl keyedHybrid), Succeeded ''Gemini API''])"
  unfolding process_def strategies_def
  by (simp add: builtIn_unavailable gemini_hello keyedHybrid_simps freshStats_def updateStats_def
      Let_def)

text \<open>
  C4 (amended). Every resolution calls the strategies in the fixed order built-in AI, Gemini API,
  basic fallback, beginning with the built-in AI whether it is available or not, and calls a
  strategy only if every strategy before it has raised or returned a falsy result in this
  resolution. An unavailable built-in AI is not skipped: its strategy method is called and throws
  at its gate, before it touches the \<^verbatim>\<open>ai\<close> object, and the loop logs the failed attempt and
  counts it in \<^verbatim>\<open>stats.errors\<close>. With an API key configured the Gemini API is then fetched; if
  it succeeds it serves the request, with method \<^verbatim>\<open>Gemini API\<close>, one error counted and the basic
  fallback not called; the basic fallback is called only after the Gemini API has not succeeded.
\<close>

theorem strategies_tried_in_order:
  "snd (snd (process h e txt operation opts)) =
     attemptTrace ''Built-in AI'' (processWithBuiltInAI h e txt operation opts) @
     (if succeeds (processWithBuiltInAI h e txt operation opts) then []
      else attemptTrace ''Gemini API'' (processWithGeminiAPI h e txt operation opts) @
           (if succeeds (processWithGeminiAPI h e txt operation opts) then []
            else attemptTrace ''Basic Fallback'' (processWithBasicFallback txt operation opts)))
   \<and> backendUses (snd (snd (process h e txt operation opts))) =
     (if isBuiltInAIAvailable h then [BuiltInUsed operation txt] else []) @
     (if succeeds (processWithBuiltInAI h e txt operation opts) then []
      else (if orStr (geminiApiKey h) [] \<noteq> [] then [Fetched (geminiProUrl h)] else []) @
           (if succeeds (processWithGeminiAPI h e txt operation opts) then []
            else [BasicFallbackUsed operation txt]))
   \<and> (\<not> isBuiltInAIAvailable h \<longrightarrow>
        attemptTrace ''Built-in AI'' (processWithBuiltInAI h e txt operation opts)
          = [Trying ''Built-in AI'', Failed ''Built-in AI'' ''Built-in AI not available''])
   \<and> (\<not> isBuiltInAIAvailable h \<and> orStr (geminiApiKey h) [] \<noteq> []
        \<and> succeeds (processWithGeminiAPI h e txt operation opts) \<longrightarrow>
        process h e txt operation opts =
          (Inr \<lparr>result = projr (fst (processWithGeminiAPI h e txt operation opts)),
                methodName = ''Gemini API'',
                statsReturned = (stats h)\<lparr>errors := errors (stats h) + 1,
                                  cloudCalls := cloudCalls (stats h) + 1\<rparr>\<rparr>,
           h\<lparr>stats := (stats h)\<lparr>errors := errors (stats h) + 1,
                                  cloudCalls := cloudCalls (stats h) + 1\<rparr>\<rparr>,
           [Trying ''Built-in AI'', Failed ''Built-in AI'' ''Built-in AI not available'',
            Trying ''Gemini API'', Fetched (geminiProUrl h), Succeeded ''Gemini API'']))
   \<and> (\<not> isBuiltInAIAvailable h \<and> orStr (geminiApiKey h) [] \<noteq> []
        \<and> \<not> succeeds (processWithGeminiAPI h e txt operation opts) \<longrightarrow>
        backendUses (snd (snd (process h e txt operation opts)))
          = [Fetched (geminiProUrl h), BasicFallbackUsed operation txt])"
proof -
  have served: "\<not> isBuiltInAIAvailable h \<and> orStr (geminiApiKey h) [] \<noteq> []
        \<and> succeeds (processWithGeminiAPI h e txt operation opts) \<longrightarrow>
        process h e txt operation opts =
          (Inr \<lparr>result = projr (fst (processWithGeminiAPI h e txt operation opts)),
                methodName = ''Gemini API'',
                statsReturned = (stats h)\<lparr>errors := errors (stats h) + 1,
                                  cloudCalls := cloudCalls (stats h) + 1\<rparr>\<rparr>,
           h\<lparr>stats := (stats h)\<lparr>errors := errors (stats h) + 1,
                                  cloudCalls := cloudCalls (stats h) + 1\<rparr>\<rparr>,
           [Trying ''Built-in AI'', Failed ''Built-in AI'' ''Built-in AI not available'',
            Trying ''Gemini API'', Fetched (geminiProUrl h), Succeeded ''Gemini API''])"
  proof (intro impI, elim conjE)
    assume a: "\<not> isBuiltInAIAvailable h" and k: "orStr (geminiApiKey h) [] \<noteq> []"
      and s: "succeeds (processWithGeminiAPI h e txt operation opts)"
    have f: "fst (processWithBuiltInAI h e txt operation opts)
             = Inl (Error ''Built-in AI not available'')"
      using a by (simp add: builtIn_unavailable)
    from gemini_serves_step [OF f s] a k
    show "process h e txt operation opts =
          (Inr \<lparr>result = projr (fst (processWithGeminiAPI h e txt operation opts)),
                methodName = ''Gemini API'',
                statsReturned = (stats h)\<lparr>errors := errors (stats h) + 1,
                                  cloudCalls := cloudCalls (stats h) + 1\<rparr>\<rparr>,
           h\<lparr>stats := (stats h)\<lparr>errors := errors (stats h) + 1,
                                  cloudCalls := cloudCalls (stats h) + 1\<rparr>\<rparr>,
           [Trying ''Built-in AI'', Failed ''Built-in AI'' ''Built-in AI not available'',
            Trying ''Gemini API'', Fetched (geminiProUrl h), Succeeded ''Gemini API''])"
      by (simp add: builtIn_events gemini_events)
  qed
  have gate: "\<not> isBuiltInAIAvailable h \<longrightarrow>
        attemptTrace ''Built-in AI'' (processWithBuiltInAI h e txt operation opts)
          = [Trying ''Built-in AI'', Failed ''Built-in AI'' ''Built-in AI not available'']"
    by (simp add: builtIn_unavailable attemptTrace_def)
  have uses: "\<not> isBuiltInAIAvailable h \<and> orStr (geminiApiKey h) [] \<noteq> []
        \<and> \<not> succeeds (processWithGeminiAPI h e txt operation opts) \<longrightarrow>
        backendUses (snd (snd (process h e txt operation opts)))
          = [Fetched (geminiProUrl h), BasicFallbackUsed operation txt]"
    using not_succeeds_unavailable [of h e "txt" operation opts]
    by (simp add: process_backendUses)
  show ?thesis
    using process_trace [of h e "txt" operation opts]
      process_backendUses [of h e "txt" operation opts] gate served uses
    by blast
qed

theorem strategies_tried_in_order_witness:
  "\<not> isBuiltInAIAvailable keyedHybrid \<and> orStr (geminiApiKey keyedHybrid) [] \<noteq> []
   \<and> succeeds (processWithGeminiAPI keyedHybrid (cloud helloPayload) ''Cells divide.'' Explain noOptions)
   \<and> process keyedHybrid (cloud helloPayload) ''Cells divide.'' Explain noOptions =
       (Inr \<lparr>result = Text ''Hello'', methodName = ''Gemini API'',
             statsReturned = freshStats\<lparr>errors := 1, cloudCalls := 1\<rparr>\<rparr>,
        keyedHybrid\<lparr>stats := freshStats\<lparr>errors := 1, cloudCalls := 1\<rparr>\<rparr>,
        [Trying ''Built-in AI'', Failed ''Built-in AI'' ''Built-in AI not available'',
         Trying ''Gemini API'', Fetched (geminiProUrl keyedHybrid), Succeeded ''Gemini API''])
   \<and> \<not> succeeds (processWithGeminiAPI keyedHybrid (cloud blankPayload) ''Cells divide.'' Explain noOptions)
   \<and> backendUses (snd (snd (process keyedHybrid (cloud blankPayload) ''Cells divide.'' Explain noOptions)))
       = [Fetched (geminiProUrl keyedHybrid), BasicFallbackUsed Explain ''Cells divide.'']"
proof -
  have a: "\<not> isBuiltInAIAvailable keyedHybrid" and k: "orStr (geminiApiKey keyedHybrid) [] \<noteq> []"
    by (simp_all add: keyedHybrid_simps)
  have g: "fst (processWithGeminiAPI keyedHybrid (cloud helloPayload) ''Cells divide.'' Explain noOptions)
           = Inr (Text ''Hello'')"
    by (simp add: processWithGeminiAPI_def keyedHybrid_simps cloud_def answering_def
        helloPayload_def extractText_def Let_def)
  have s: "succeeds (processWithGeminiAPI keyedHybrid (cloud helloPayload) ''Cells divide.'' Explain noOptions)"
    by (simp add: g succeeds_def)
  have n: "\<not> succeeds (processWithGeminiAPI keyedHybrid (cloud blankPayload) ''Cells divide.'' Explain noOptions)"
    by (simp add: processWithGeminiAPI_def keyedHybrid_simps cloud_def answering_def
        blankPayload_def extractText_def succeeds_def Let_def)
  note served = strategies_tried_in_order
    [of keyedHybrid "cloud helloPayload" "''Cells divide.''" Explain noOptions]
  note fallen = strategies_tried_in_order
    [of keyedHybrid "cloud blankPayload" "''Cells divide.''" Explain noOptions]
  from served have
    "\<not> isBuiltInAIAvailable keyedHybrid \<and> orStr (geminiApiKey keyedHybrid) [] \<noteq> []
     \<and> succeeds (processWithGeminiAPI keyedHybrid (cloud helloPayload) ''Cells divide.'' Explain noOptions) \<longrightarrow>
     process keyedHybrid (cloud helloPayload) ''Cells divide.'' Explain noOptions =
       (Inr \<lparr>result = projr (fst (processWithGeminiAPI keyedHybrid (cloud helloPayload)
                                       ''Cells divide.'' Explain noOptions)),
             methodName = ''Gemini API'',
             statsReturned = (stats keyedHybrid)\<lparr>errors := errors (stats keyedHybrid) + 1,
                               cloudCalls := cloudCalls (stats keyedHybrid) + 1\<rparr>\<rparr>,
        keyedHybrid\<lparr>stats := (stats keyedHybrid)\<lparr>errors := errors (stats keyedHybrid) + 1,
                               cloudCalls := cloudCalls (stats keyedHybrid) + 1\<rparr>\<rparr>,
        [Trying ''Built-in AI'', Failed ''Built-in AI'' ''Built-in AI not available'',
         Trying ''Gemini API'', Fetched (geminiProUrl keyedHybrid), Succeeded ''Gemini API''])"
    by (elim conjE) assumption
  with a k s have r1:
    "process keyedHybrid (cloud helloPayload) ''Cells divide.'' Explain noOptions =
       (Inr \<lparr>result = Text ''Hello'', methodName = ''Gemini API'',
             statsReturned = freshStats\<lparr>errors := 1, cloudCalls := 1\<rparr>\<rparr>,
        keyedHybrid\<lparr>stats := freshStats\<lparr>errors := 1, cloudCalls := 1\<rparr>\<rparr>,
        [Trying ''Built-in AI'', Failed ''Built-in AI'' ''Built-in AI not available'',
         Trying ''Gemini API'', Fetched (geminiProUrl keyedHybrid), Succeeded ''Gemini API''])"
    by (simp add: g keyedHybrid_simps freshStats_def)
  from fallen have
    "\<not> isBuiltInAIAvailable keyedHybrid \<and> orStr (geminiApiKey keyedHybrid) [] \<noteq> []
     \<and> \<not> succeeds (processWithGeminiAPI keyedHybrid (cloud blankPayload) ''Cells divide.'' Explain noOptions) \<longrightarrow>
     backendUses (snd (snd (process keyedHybrid (cloud blankPayload) ''Cells divide.'' Explain noOptions)))
       = [Fetched (geminiProUrl keyedHybrid), BasicFallbackUsed Explain ''Cells divide.'']"
    by (elim conjE) assumption
  with a k n have r2:
    "backendUses (snd (snd (process keyedHybrid (cloud blankPayload) ''Cells divide.'' Explain noOptions)))
       = [Fetched (geminiProUrl keyedHybrid), BasicFallbackUsed Explain ''Cells divide.'']"
    by blast
  show ?thesis using a k s n r1 r2 by blast
qed

subsection \<open>Falling through on failure\<close>

text \<open>
  C5 (as stated). The claim has the returned outcome carry an attempt trail that records the
  failed backend with its failure reason. The object \<^verbatim>\<open>process\<close> returns has the members
  \<^verbatim>\<open>result\<close>, \<^verbatim>\<open>method\<close> and \<^verbatim>\<open>stats\<close> only: when the Gemini API fails by a timeout and when
  it fails by a network error, the basic fallback serves and the returned object is the same.
\<close>

theorem outcome_has_no_trail:
  "fst (process keyedHybrid timingOut ''Hi.'' Summarize noOptions) =
     Inr \<lparr>result = Text ''Hi.'', methodName = ''Basic Fallback'',
          statsReturned = freshStats\<lparr>fallbackCalls := 1, errors := 2\<rparr>\<rparr>
   \<and> fst (process keyedHybrid offline ''Hi.'' Summarize noOptions) =
     Inr \<lparr>result = Text ''Hi.'', methodName = ''Basic Fallback'',
          statsReturned = freshStats\<lparr>fallbackCalls := 1, errors := 2\<rparr>\<rparr>"
  unfolding process_def strategies_def timingOut_def offline_def
  by (simp add: builtIn_unavailable gemini_fetch_fails basic_summarize_Hi keyedHybrid_simps
      freshStats_def updateStats_def Let_def)

text \<open>
  C5 (amended). An error raised by a strategy is caught in the loop and the next strategy is
  tried; the only error \<^verbatim>\<open>process\<close> itself raises is \<^verbatim>\<open>All AI processing strategies failed\<close>.
  If the Gemini API raises and the basic fallback succeeds (the built-in AI not having
  succeeded), \<^verbatim>\<open>process\<close> returns the fallback's result with method \<^verbatim>\<open>Basic Fallback\<close> and
  the error counter raised; the failure and its message are written to the console only, as is
  the success of the fallback, and are not part of the returned object.
\<close>

theorem failure_falls_through:
  "(\<forall>err'. fst (process h e txt operation opts) = Inl err' \<longrightarrow>
       err' = Error ''All AI processing strategies failed'')
   \<and> (\<not> succeeds (processWithBuiltInAI h e txt operation opts)
        \<and> fst (processWithGeminiAPI h e txt operation opts) = Inl err
        \<and> succeeds (processWithBasicFallback txt operation opts) \<longrightarrow>
      process h e txt operation opts =
       (Inr \<lparr>result = projr (fst (processWithBasicFallback txt operation opts)),
             methodName = ''Basic Fallback'',
             statsReturned = (stats h)\<lparr>errors := errors (stats h)
                                 + raised (processWithBuiltInAI h e txt operation opts) + 1,
                               fallbackCalls := fallbackCalls (stats h) + 1\<rparr>\<rparr>,
        h\<lparr>stats := (stats h)\<lparr>errors := errors (stats h)
                                 + raised (processWithBuiltInAI h e txt operation opts) + 1,
                               fallbackCalls := fallbackCalls (stats h) + 1\<rparr>\<rparr>,
        attemptTrace ''Built-in AI'' (processWithBuiltInAI h e txt operation opts)
        @ [Trying ''Gemini API''] @ snd (processWithGeminiAPI h e txt operation opts)
        @ [Failed ''Gemini API'' (message err), Trying ''Basic Fallback'',
           BasicFallbackUsed operation txt, Succeeded ''Basic Fallback'']))"
  using process_error [of h e "txt" operation opts] gemini_raises_step [of h e "txt" operation opts err]
  by blast

theorem failure_falls_through_witness:
  "\<not> succeeds (processWithBuiltInAI keyedHybrid timingOut ''Hi.'' Summarize noOptions)
   \<and> fst (processWithGeminiAPI keyedHybrid timingOut ''Hi.'' Summarize noOptions)
       = Inl (Error ''The operation timed out'')
   \<and> succeeds (processWithBasicFallback ''Hi.'' Summarize noOptions)
   \<and> snd (snd (process keyedHybrid timingOut ''Hi.'' Summarize noOptions)) =
       [Trying ''Built-in AI'', Failed ''Built-in AI'' ''Built-in AI not available'',
        Trying ''Gemini API'', Fetched (geminiProUrl keyedHybrid),
        Failed ''Gemini API'' ''The operation timed out'',
        Trying ''Basic Fallback'', BasicFallbackUsed Summarize ''Hi.'',
        Succeeded ''Basic Fallback'']"
proof -
  have a: "\<not> succeeds (processWithBuiltInAI keyedHybrid timingOut ''Hi.'' Summarize noOptions)"
    by (simp add: not_succeeds_unavailable keyedHybrid_simps)
  have b: "processWithGeminiAPI keyedHybrid timingOut ''Hi.'' Summarize noOptions
       = (Inl (Error ''The operation timed out''), [Fetched (geminiProUrl keyedHybrid)])"
    unfolding timingOut_def by (rule gemini_fetch_fails)
  have c: "succeeds (processWithBasicFallback ''Hi.'' Summarize noOptions)"
    by (simp add: basic_summarize_Hi succeeds_def)
  have t: "attemptTrace ''Built-in AI''
             (processWithBuiltInAI keyedHybrid timingOut ''Hi.'' Summarize noOptions)
           = [Trying ''Built-in AI'', Failed ''Built-in AI'' ''Built-in AI not available'']"
    by (simp add: builtIn_unavailable keyedHybrid_simps attemptTrace_def)
  from failure_falls_through
    [of keyedHybrid timingOut "''Hi.''" Summarize noOptions "Error ''The operation timed out''"]
    a b c t
  show ?thesis by simp
qed

subsection \<open>The statistics\<close>

text \<open>
  C8. The usage statistics have no effect on a resolution: two managers that differ only in
  their counters give the same result, serving method and effects for the same request against
  the same backends, in \<^verbatim>\<open>HybridAIManager.process\<close> and in \<^verbatim>\<open>AIManagerEnhanced.prompt\<close> (where
  the session kept for later calls is the same too).
\<close>

theorem stats_do_not_influence_resolution:
  "map_sum id (\<lambda>out. (result out, methodName out)) (fst (process (h\<lparr>stats := s\<rparr>) e txt operation opts))
     = map_sum id (\<lambda>out. (result out, methodName out)) (fst (process h e txt operation opts))
   \<and> snd (snd (process (h\<lparr>stats := s\<rparr>) e txt operation opts))
     = snd (snd (process h e txt operation opts))
   \<and> fst (AIManagerEnhanced_prompt create f (m\<lparr>stats' := u\<rparr>) txt opts)
     = fst (AIManagerEnhanced_prompt create f m txt opts)
   \<and> promptSession (fst (snd (AIManagerEnhanced_prompt create f (m\<lparr>stats' := u\<rparr>) txt opts)))
     = promptSession (fst (snd (AIManagerEnhanced_prompt create f m txt opts)))
   \<and> snd (snd (AIManagerEnhanced_prompt create f (m\<lparr>stats' := u\<rparr>) txt opts))
     = snd (snd (AIManagerEnhanced_prompt create f m txt opts))"
  using prompt_usage
  by (simp add: process_served process_trace builtIn_stats gemini_stats)

subsection \<open>Structured output\<close>

lemma builtIn_flashcards_nonempty:
  "fst (processWithBuiltInAI h e txt CreateFlashcards opts) = Inr res \<Longrightarrow>
   \<exists>cards. res = Flashcards cards \<and> cards \<noteq> []"
  by (auto simp: processWithBuiltInAI_def createFlashcardsBuiltIn_def parseFlashcards_def Let_def
      split: if_splits sum.splits)

lemma gemini_flashcards_nonempty:
  "fst (processWithGeminiAPI h e txt CreateFlashcards opts) = Inr res \<Longrightarrow>
   \<exists>cards. res = Flashcards cards \<and> cards \<noteq> []"
  by (auto simp: processWithGeminiAPI_def parseFlashcards_def Let_def
      split: if_splits sum.splits option.splits)

text \<open>
  When the parse returns, the list is not empty: \<^verbatim>\<open>parseQuestions\<close> and \<^verbatim>\<open>parseFlashcards\<close>
  end with \<^verbatim>\<open>list.length > 0 ? list : [placeholder]\<close>.
\<close>

lemma structured_parse_placeholder:
  "parseQuestions txt \<noteq> []
   \<and> (collectQuestions (filter (\<lambda>line. trim line \<noteq> []) (splitOn CHR 0x0A txt)) [] = [] \<longrightarrow>
        parseQuestions txt = [''Could not generate questions''])
   \<and> (\<forall>cards. parseFlashcards txt = Inr cards \<longrightarrow> cards \<noteq> [])
   \<and> (collectFlashcards (splitOn CHR 0x0A txt) [] = Inr [] \<longrightarrow>
        parseFlashcards txt = Inr [\<lparr>question = ''Sample Question'', answer = ''Sample Answer''\<rparr>])"
  by (auto simp: parseQuestions_def parseFlashcards_def Let_def split: sum.splits)

lemma structured_parse_placeholder_example:
  "parseQuestions ''Q1 only'' = [''Could not generate questions'']
   \<and> parseFlashcards ''Q1 only'' = Inr [\<lparr>question = ''Sample Question'', answer = ''Sample Answer''\<rparr>]"
proof -
  have q: "collectQuestions (filter (\<lambda>line. trim line \<noteq> []) (splitOn CHR 0x0A ''Q1 only'')) [] = []"
    by (simp add: trim_def isSpace_def stripNumbering_def isDigit_def Let_def)
  have f: "collectFlashcards (splitOn CHR 0x0A ''Q1 only'') [] = Inr []"
    by simp
  from structured_parse_placeholder [of "''Q1 only''"] q f show ?thesis by simp
qed

text \<open>
  C6. The claim has the list of a structured result never empty once the text of the answer has
  been extracted: a parse that finds no item gives one placeholder. \<^verbatim>\<open>parseFlashcards\<close> ends
  with that placeholder, but does not reach it on the answer \<^verbatim>\<open>Q: a A: b\<close>: the line has \<^verbatim>\<open>Q:\<close>
  and \<^verbatim>\<open>A:\<close> and no \<^verbatim>\<open>|\<close>, so the answer half is \<^verbatim>\<open>undefined\<close> and \<^verbatim>\<open>a.replace\<close> raises a
  \<^verbatim>\<open>TypeError\<close>. The Gemini strategy fails with it, and the basic fallback, which has no
  placeholder, finds no sentence in the text \<^verbatim>\<open>hello\<close>: \<^verbatim>\<open>process\<close> returns an empty list of
  flashcards as a success.
\<close>

theorem flashcards_can_be_empty:
  "parseFlashcards ''Q: a A: b'' = Inl (typeError ''replace'')
   \<and> basicCreateFlashcards ''hello'' = []
   \<and> process keyedHybrid (cloud qaPayload) ''hello'' CreateFlashcards noOptions =
       (Inr \<lparr>result = Flashcards [], methodName = ''Basic Fallback'',
             statsReturned = freshStats\<lparr>fallbackCalls := 1, errors := 2\<rparr>\<rparr>,
        keyedHybrid\<lparr>stats := freshStats\<lparr>fallbackCalls := 1, errors := 2\<rparr>\<rparr>,
        [Trying ''Built-in AI'', Failed ''Built-in AI'' ''Built-in AI not available'',
         Trying ''Gemini API'', Fetched (geminiProUrl keyedHybrid),
         Failed ''Gemini API'' (message (typeError ''replace'')),
         Trying ''Basic Fallback'', BasicFallbackUsed CreateFlashcards ''hello'',
         Succeeded ''Basic Fallback''])"
proof -
  have p: "parseFlashcards ''Q: a A: b'' = Inl (typeError ''replace'')"
    by (simp add: parseFlashcards_def)
  have b: "basicCreateFlashcards ''hello'' = []"
    by (simp add: basicCreateFlashcards_def matchSentences_def isTerminator_def)
  have g: "processWithGeminiAPI keyedHybrid (cloud qaPayload) ''hello'' CreateFlashcards noOptions
           = (Inl (typeError ''replace''), [Fetched (geminiProUrl keyedHybrid)])"
    by (simp add: processWithGeminiAPI_def keyedHybrid_simps cloud_def answering_def
        qaPayload_def extractText_def geminiProUrl_def p Let_def)
  have fb: "processWithBasicFallback ''hello'' CreateFlashcards noOptions
            = (Inr (Flashcards []), [BasicFallbackUsed CreateFlashcards ''hello''])"
    by (simp add: processWithBasicFallback_def b)
  have r: "process keyedHybrid (cloud qaPayload) ''hello'' CreateFlashcards noOptions =
       (Inr \<lparr>result = Flashcards [], methodName = ''Basic Fallback'',
             statsReturned = freshStats\<lparr>fallbackCalls := 1, errors := 2\<rparr>\<rparr>,
        keyedHybrid\<lparr>stats := freshStats\<lparr>fallbackCalls := 1, errors := 2\<rparr>\<rparr>,
        [Trying ''Built-in AI'', Failed ''Built-in AI'' ''Built-in AI not available'',
         Trying ''Gemini API'', Fetched (geminiProUrl keyedHybrid),
         Failed ''Gemini API'' (message (typeError ''replace'')),
         Trying ''Basic Fallback'', BasicFallbackUsed CreateFlashcards ''hello'',
         Succeeded ''Basic Fallback''])"
    unfolding process_def strategies_def
    by (simp add: builtIn_unavailable g fb keyedHybrid_simps freshStats_def updateStats_def Let_def)
  show ?thesis using p b r by simp
qed

subsection \<open>The capability check\<close>

lemma probe_depends_on_backend_only:
  "isBuiltInAIAvailable (fst (checkBuiltInAI b h))
   = (case languageModelCaps b of Some (Inr c) \<Rightarrow> available c = ''readily'' | _ \<Rightarrow> False)"
  by (simp add: checkBuiltInAI_def Let_def split: option.splits sum.splits)

text \<open>
  C9. The capability check is idempotent: run twice against the same browser state, the second
  run leaves the manager as the first did and does what the first did, in
  \<^verbatim>\<open>HybridAIManager.checkBuiltInAI\<close> and in \<^verbatim>\<open>AIManagerEnhanced.checkCapabilities\<close>.
\<close>

theorem probe_idempotent:
  "checkBuiltInAI b (fst (checkBuiltInAI b h)) = checkBuiltInAI b h
   \<and> checkCapabilities b (checkCapabilities b m) = checkCapabilities b m"
  by (simp add: checkBuiltInAI_def checkCapabilities_def probeApi_def Let_def
      split: option.splits sum.splits)

subsection \<open>Endpoint variants\<close>

lemma geminiLoop_all_fail:
  "\<forall>ep \<in> set eps. isl (tryEndpoint f key txt opts ep) \<Longrightarrow>
   geminiLoop f key txt opts eps lastError trace =
     (Inl (Error (''Gemini API error: '' @
        (case (if eps = [] then lastError
               else Some (projl (tryEndpoint f key txt opts (last eps)))) of
           None \<Rightarrow> ''null'' | Some msg \<Rightarrow> msg))),
      trace @ map (\<lambda>ep. Fetched (url (geminiRequest ep key txt opts))) eps)"
proof (induction eps arbitrary: lastError trace)
  case Nil
  then show ?case by simp
next
  case (Cons ep eps)
  then obtain msg where m: "tryEndpoint f key txt opts ep = Inl msg"
    by (cases "tryEndpoint f key txt opts ep") auto
  from Cons.prems have rest: "\<forall>ep \<in> set eps. isl (tryEndpoint f key txt opts ep)" by simp
  show ?case
    using Cons.IH [OF rest, of "Some msg" "trace @ [Fetched (url (geminiRequest ep key txt opts))]"] m
    by simp
qed

lemma geminiLoop_first_success:
  "\<forall>x \<in> set pre. isl (tryEndpoint f key txt opts x) \<Longrightarrow>
   tryEndpoint f key txt opts ep = Inr t \<Longrightarrow>
   geminiLoop f key txt opts (pre @ ep # post) lastError trace =
     (Inr t, trace @ map (\<lambda>ep. Fetched (url (geminiRequest ep key txt opts))) (pre @ [ep]))"
proof (induction pre arbitrary: lastError trace)
  case Nil
  then show ?case by simp
next
  case (Cons x pre)
  then obtain msg where m: "tryEndpoint f key txt opts x = Inl msg"
    by (cases "tryEndpoint f key txt opts x") auto
  from Cons.prems have rest: "\<forall>x \<in> set pre. isl (tryEndpoint f key txt opts x)" by simp
  show ?case
    using Cons.IH [OF rest Cons.prems(2), of "Some msg"
        "trace @ [Fetched (url (geminiRequest x key txt opts))]"] m
    by simp
qed

lemma geminiLoop_error_only_if_all_fail:
  assumes "fst (geminiLoop f key txt opts eps lastError trace) = Inl err"
  shows "\<forall>ep \<in> set eps. isl (tryEndpoint f key txt opts ep)"
proof (rule ccontr)
  assume "\<not> (\<forall>ep \<in> set eps. isl (tryEndpoint f key txt opts ep))"
  then have "\<exists>ep \<in> set eps. \<not> isl (tryEndpoint f key txt opts ep)" by simp
  then have "\<exists>pre ep post. eps = pre @ ep # post \<and> \<not> isl (tryEndpoint f key txt opts ep)
      \<and> (\<forall>x \<in> set pre. \<not> \<not> isl (tryEndpoint f key txt opts x))"
    by (rule split_list_first_prop)
  then obtain pre ep post where split: "eps = pre @ ep # post"
    and ok: "\<not> isl (tryEndpoint f key txt opts ep)"
    and pre: "\<forall>x \<in> set pre. \<not> \<not> isl (tryEndpoint f key txt opts x)"
    by blast
  from ok obtain t where t: "tryEndpoint f key txt opts ep = Inr t"
    by (cases "tryEndpoint f key txt opts ep") auto
  from pre have pre': "\<forall>x \<in> set pre. isl (tryEndpoint f key txt opts x)" by simp
  from geminiLoop_first_success [OF pre' t, of post lastError trace] assms split
  show False by simp
qed

lemma tryEndpoint_failures:
  "f (geminiRequest ep key txt opts) = Inl error \<Longrightarrow>
   tryEndpoint f key txt opts ep = Inl (message error)"
  "f (geminiRequest ep key txt opts) = Inr resp \<Longrightarrow> \<not> ok resp \<Longrightarrow>
   isl (tryEndpoint f key txt opts ep)"
  "f (geminiRequest ep key txt opts) = Inr resp \<Longrightarrow> \<not> ok resp \<Longrightarrow> json resp = Inr b \<Longrightarrow>
   tryEndpoint f key txt opts ep = Inl (orStr (errorMessage b) (statusText resp))"
  by (simp_all add: tryEndpoint_def split: sum.splits)

lemma keyedEnhanced_key: "geminiApiKey' (hybridConfig keyedEnhanced) = Some ''test-key''"
  by (simp add: keyedEnhanced_def)

lemma geminiRequest_url: "url (geminiRequest ep (Some k) txt opts) = ep @ ''?key='' @ k"
  by (simp add: geminiRequest_def)

text \<open>
  \<^verbatim>\<open>AIManagerEnhanced.geminiPrompt\<close> tries its endpoints in the order of the list. A failure
  of an endpoint (an error of \<^verbatim>\<open>fetch\<close>, a response that is not ok, an unreadable payload) only
  moves it on to the next one. It returns the answer of the first endpoint that does not fail,
  having fetched no endpoint after it, and raises only when every endpoint has failed, with the
  message of the last failure.
\<close>

lemma gemini_endpoints_in_sequence:
  "((\<forall>ep \<in> set endpoints. isl (tryEndpoint f (geminiApiKey' (hybridConfig m)) txt opts ep)) \<longrightarrow>
      AIManagerEnhanced_geminiPrompt f m txt opts =
        (Inl (Error (''Gemini API error: ''
                     @ projl (tryEndpoint f (geminiApiKey' (hybridConfig m)) txt opts (last endpoints)))),
         map (\<lambda>ep. Fetched (url (geminiRequest ep (geminiApiKey' (hybridConfig m)) txt opts))) endpoints))
   \<and> (\<forall>pre ep post t.
        endpoints = pre @ ep # post
        \<and> (\<forall>x \<in> set pre. isl (tryEndpoint f (geminiApiKey' (hybridConfig m)) txt opts x))
        \<and> tryEndpoint f (geminiApiKey' (hybridConfig m)) txt opts ep = Inr t \<longrightarrow>
        AIManagerEnhanced_geminiPrompt f m txt opts =
          (Inr t,
           map (\<lambda>ep. Fetched (url (geminiRequest ep (geminiApiKey' (hybridConfig m)) txt opts)))
             (pre @ [ep])))
   \<and> (\<forall>err. fst (AIManagerEnhanced_geminiPrompt f m txt opts) = Inl err \<longrightarrow>
        (\<forall>ep \<in> set endpoints. isl (tryEndpoint f (geminiApiKey' (hybridConfig m)) txt opts ep)))
   \<and> (\<forall>ep error. f (geminiRequest ep (geminiApiKey' (hybridConfig m)) txt opts) = Inl error \<longrightarrow>
        tryEndpoint f (geminiApiKey' (hybridConfig m)) txt opts ep = Inl (message error))
   \<and> (\<forall>ep resp. f (geminiRequest ep (geminiApiKey' (hybridConfig m)) txt opts) = Inr resp \<and> \<not> ok resp \<longrightarrow>
        tryEndpoint f (geminiApiKey' (hybridConfig m)) txt opts ep
        = Inl (case json resp of
                 Inl error \<Rightarrow> message error
               | Inr data \<Rightarrow> orStr (errorMessage data) (statusText resp)))"
proof -
  have nonempty: "endpoints \<noteq> []" by (simp add: endpoints_def)
  have a: "(\<forall>ep \<in> set endpoints. isl (tryEndpoint f (geminiApiKey' (hybridConfig m)) txt opts ep)) \<longrightarrow>
      AIManagerEnhanced_geminiPrompt f m txt opts =
        (Inl (Error (''Gemini API error: ''
                     @ projl (tryEndpoint f (geminiApiKey' (hybridConfig m)) txt opts (last endpoints)))),
         map (\<lambda>ep. Fetched (url (geminiRequest ep (geminiApiKey' (hybridConfig m)) txt opts))) endpoints)"
    unfolding AIManagerEnhanced_geminiPrompt_def
    using geminiLoop_all_fail [of endpoints f "geminiApiKey' (hybridConfig m)" "txt" opts None "[]"] nonempty
    by simp
  have b: "\<forall>pre ep post t.
        endpoints = pre @ ep # post
        \<and> (\<forall>x \<in> set pre. isl (tryEndpoint f (geminiApiKey' (hybridConfig m)) txt opts x))
        \<and> tryEndpoint f (geminiApiKey' (hybridConfig m)) txt opts ep = Inr t \<longrightarrow>
        AIManagerEnhanced_geminiPrompt f m txt opts =
          (Inr t,
           map (\<lambda>ep. Fetched (url (geminiRequest ep (geminiApiKey' (hybridConfig m)) txt opts)))
             (pre @ [ep]))"
  proof (intro allI impI, elim conjE)
    fix pre ep post t
    assume split: "endpoints = pre @ ep # post"
      and pre: "\<forall>x \<in> set pre. isl (tryEndpoint f (geminiApiKey' (hybridConfig m)) txt opts x)"
      and t: "tryEndpoint f (geminiApiKey' (hybridConfig m)) txt opts ep = Inr t"
    show "AIManagerEnhanced_geminiPrompt f m txt opts =
          (Inr t,
           map (\<lambda>ep. Fetched (url (geminiRequest ep (geminiApiKey' (hybridConfig m)) txt opts)))
             (pre @ [ep]))"
      unfolding AIManagerEnhanced_geminiPrompt_def split
      using geminiLoop_first_success [OF pre t, of post None "[]"] by simp
  qed
  have c: "\<forall>err. fst (AIManagerEnhanced_geminiPrompt f m txt opts) = Inl err \<longrightarrow>
        (\<forall>ep \<in> set endpoints. isl (tryEndpoint f (geminiApiKey' (hybridConfig m)) txt opts ep))"
    unfolding AIManagerEnhanced_geminiPrompt_def
    using geminiLoop_error_only_if_all_fail by blast
  have d: "\<forall>ep resp. f (geminiRequest ep (geminiApiKey' (hybridConfig m)) txt opts) = Inr resp \<and> \<not> ok resp \<longrightarrow>
        tryEndpoint f (geminiApiKey' (hybridConfig m)) txt opts ep
        = Inl (case json resp of
                 Inl error \<Rightarrow> message error
               | Inr data \<Rightarrow> orStr (errorMessage data) (statusText resp))"
    by (simp add: tryEndpoint_def split: sum.splits)
  show ?thesis
    using a b c d tryEndpoint_failures(1) by blast
qed

lemma gemini_endpoints_in_sequence_example:
  "AIManagerEnhanced_geminiPrompt (failingFetch ''Failed to fetch'') keyedEnhanced ''Hi'' noOptions
     = (Inl (Error ''Gemini API error: Failed to fetch''),
        [Fetched (endpoints ! 0 @ ''?key=test-key''), Fetched (endpoints ! 1 @ ''?key=test-key''),
         Fetched (endpoints ! 2 @ ''?key=test-key'')])
   \<and> AIManagerEnhanced_geminiPrompt (firstEndpointDown helloPayload) keyedEnhanced ''Hi'' noOptions
     = (Inr (Some ''Hello''),
        [Fetched (endpoints ! 0 @ ''?key=test-key''), Fetched (endpoints ! 1 @ ''?key=test-key'')])"
proof -
  have down: "\<forall>ep \<in> set endpoints.
      isl (tryEndpoint (failingFetch ''Failed to fetch'') (geminiApiKey' (hybridConfig keyedEnhanced)) ''Hi''
             noOptions ep)"
    by (simp add: tryEndpoint_def failingFetch_def)
  have split: "endpoints = [endpoints ! 0] @ endpoints ! 1 # [endpoints ! 2]"
    by (simp add: endpoints_def)
  have first: "\<forall>x \<in> set [endpoints ! 0].
      isl (tryEndpoint (firstEndpointDown helloPayload) (geminiApiKey' (hybridConfig keyedEnhanced)) ''Hi''
             noOptions x)"
    by (simp add: tryEndpoint_def firstEndpointDown_def keyedEnhanced_key geminiRequest_url
        endpoints_def)
  have second: "tryEndpoint (firstEndpointDown helloPayload) (geminiApiKey' (hybridConfig keyedEnhanced)) ''Hi''
             noOptions (endpoints ! 1) = Inr (Some ''Hello'')"
    by (simp add: tryEndpoint_def firstEndpointDown_def keyedEnhanced_key geminiRequest_url
        endpoints_def answering_def helloPayload_def extractText_def)
  note thm1 = gemini_endpoints_in_sequence
    [of "failingFetch ''Failed to fetch''" keyedEnhanced "''Hi''" noOptions]
  note thm2 = gemini_endpoints_in_sequence
    [of "firstEndpointDown helloPayload" keyedEnhanced "''Hi''" noOptions]
  have r1: "AIManagerEnhanced_geminiPrompt (failingFetch ''Failed to fetch'') keyedEnhanced ''Hi'' noOptions
     = (Inl (Error ''Gemini API error: Failed to fetch''),
        [Fetched (endpoints ! 0 @ ''?key=test-key''), Fetched (endpoints ! 1 @ ''?key=test-key''),
         Fetched (endpoints ! 2 @ ''?key=test-key'')])"
  proof -
    from thm1 have "(\<forall>ep \<in> set endpoints.
        isl (tryEndpoint (failingFetch ''Failed to fetch'') (geminiApiKey' (hybridConfig keyedEnhanced)) ''Hi''
               noOptions ep)) \<longrightarrow>
      AIManagerEnhanced_geminiPrompt (failingFetch ''Failed to fetch'') keyedEnhanced ''Hi'' noOptions =
        (Inl (Error (''Gemini API error: ''
                     @ projl (tryEndpoint (failingFetch ''Failed to fetch'')
                                (geminiApiKey' (hybridConfig keyedEnhanced)) ''Hi'' noOptions (last endpoints)))),
         map (\<lambda>ep. Fetched (url (geminiRequest ep (geminiApiKey' (hybridConfig keyedEnhanced)) ''Hi'' noOptions)))
           endpoints)"
      by (rule conjunct1)
    with down have "AIManagerEnhanced_geminiPrompt (failingFetch ''Failed to fetch'') keyedEnhanced ''Hi'' noOptions =
        (Inl (Error (''Gemini API error: ''
                     @ projl (tryEndpoint (failingFetch ''Failed to fetch'')
                                (geminiApiKey' (hybridConfig keyedEnhanced)) ''Hi'' noOptions (last endpoints)))),
         map (\<lambda>ep. Fetched (url (geminiRequest ep (geminiApiKey' (hybridConfig keyedEnhanced)) ''Hi'' noOptions)))
           endpoints)"
      by (rule rev_mp)
    then show ?thesis
      unfolding keyedEnhanced_key
      by (simp add: geminiRequest_url endpoints_def tryEndpoint_def failingFetch_def)
  qed
  have r2: "AIManagerEnhanced_geminiPrompt (firstEndpointDown helloPayload) keyedEnhanced ''Hi'' noOptions
     = (Inr (Some ''Hello''),
        map (\<lambda>ep. Fetched (url (geminiRequest ep (geminiApiKey' (hybridConfig keyedEnhanced)) ''Hi'' noOptions)))
          ([endpoints ! 0] @ [endpoints ! 1]))"
  proof -
    from thm2 have "\<forall>pre ep post t.
        endpoints = pre @ ep # post
        \<and> (\<forall>x \<in> set pre. isl (tryEndpoint (firstEndpointDown helloPayload)
                                    (geminiApiKey' (hybridConfig keyedEnhanced)) ''Hi'' noOptions x))
        \<and> tryEndpoint (firstEndpointDown helloPayload) (geminiApiKey' (hybridConfig keyedEnhanced)) ''Hi''
              noOptions ep = Inr t \<longrightarrow>
        AIManagerEnhanced_geminiPrompt (firstEndpointDown helloPayload) keyedEnhanced ''Hi'' noOptions =
          (Inr t,
           map (\<lambda>ep. Fetched (url (geminiRequest ep (geminiApiKey' (hybridConfig keyedEnhanced)) ''Hi'' noOptions)))
             (pre @ [ep]))"
      by (rule conjunct1 [OF conjunct2])
    then show ?thesis using split first second by blast
  qed
  show ?thesis
    unfolding r1 r2 keyedEnhanced_key by (simp add: geminiRequest_url)
qed

text \<open>
  C7. The claim has the adapter of the Gemini API try several endpoint variants in sequence
  and raise only when all have failed. \<^verbatim>\<open>HybridAIManager.processWithGeminiAPI\<close> fetches the one
  URL of the model \<^verbatim>\<open>gemini-pro\<close> and raises on its failure. On a network where only the model
  \<^verbatim>\<open>gemini-1.5-flash-latest\<close> answers, it raises \<^verbatim>\<open>Gemini API error: model not found\<close> after
  that one fetch and \<^verbatim>\<open>process\<close> falls back to the basic summary, while
  \<^verbatim>\<open>AIManagerEnhanced.geminiPrompt\<close> returns the answer of the endpoint that is up.
\<close>

theorem hybrid_gemini_tries_one_endpoint:
  "processWithGeminiAPI keyedHybrid \<lparr>ai = noAi, fetch = onlyFlashAnswers helloPayload\<rparr>
     ''Hi.'' Summarize noOptions
   = (Inl (Error ''Gemini API error: model not found''), [Fetched (geminiProUrl keyedHybrid)])
   \<and> map_sum id (\<lambda>out. (result out, methodName out))
       (fst (process keyedHybrid \<lparr>ai = noAi, fetch = onlyFlashAnswers helloPayload\<rparr>
               ''Hi.'' Summarize noOptions))
     = Inr (Text ''Hi.'', ''Basic Fallback'')
   \<and> AIManagerEnhanced_geminiPrompt (onlyFlashAnswers helloPayload) keyedEnhanced ''Hi.'' noOptions
     = (Inr (Some ''Hello''), [Fetched (hd endpoints @ ''?key=test-key'')])"
proof -
  have g: "processWithGeminiAPI keyedHybrid \<lparr>ai = noAi, fetch = onlyFlashAnswers helloPayload\<rparr>
     ''Hi.'' Summarize noOptions
   = (Inl (Error ''Gemini API error: model not found''), [Fetched (geminiProUrl keyedHybrid)])"
    by (simp add: processWithGeminiAPI_def keyedHybrid_simps onlyFlashAnswers_def endpoints_def
        geminiProUrl_def Let_def)
  have p: "map_sum id (\<lambda>out. (result out, methodName out))
       (fst (process keyedHybrid \<lparr>ai = noAi, fetch = onlyFlashAnswers helloPayload\<rparr>
               ''Hi.'' Summarize noOptions))
     = Inr (Text ''Hi.'', ''Basic Fallback'')"
  proof -
    have "\<not> succeeds (processWithGeminiAPI keyedHybrid
                \<lparr>ai = noAi, fetch = onlyFlashAnswers helloPayload\<rparr> ''Hi.'' Summarize noOptions)"
      "succeeds (processWithBasicFallback ''Hi.'' Summarize noOptions)"
      by (simp_all add: g succeeds_def basic_summarize_Hi)
    then show ?thesis
      by (simp add: process_served not_succeeds_unavailable keyedHybrid_simps basic_summarize_Hi)
  qed
  have t: "tryEndpoint (onlyFlashAnswers helloPayload) (Some ''test-key'') ''Hi.'' noOptions
             (hd endpoints) = Inr (Some ''Hello'')"
    by (simp add: tryEndpoint_def onlyFlashAnswers_def geminiRequest_url answering_def
        helloPayload_def extractText_def)
  have e: "AIManagerEnhanced_geminiPrompt (onlyFlashAnswers helloPayload) keyedEnhanced ''Hi.'' noOptions
     = (Inr (Some ''Hello''), [Fetched (hd endpoints @ ''?key=test-key'')])"
    using geminiLoop_first_success [of "[]" "onlyFlashAnswers helloPayload" "Some ''test-key''"
        "''Hi.''" noOptions "hd endpoints" "Some ''Hello''" "tl endpoints" None "[]"] t
    by (simp add: AIManagerEnhanced_geminiPrompt_def keyedEnhanced_key geminiRequest_url
        endpoints_def)
  show ?thesis using g p e by simp
qed

subsection \<open>The response normalizer\<close>

text \<open>
  \<^verbatim>\<open>AIManager.geminiPrompt\<close> does what the specification says of the normalizer: it returns the
  first of the paths (a) and (b) that yields a non-empty string and raises when neither does.
\<close>

lemma geminiResponseText_spec:
  "geminiResponseText data =
     (case specNormalize data of Some s \<Rightarrow> Inr s | None \<Rightarrow> Inl invalidStructure)"
  by (simp add: geminiResponseText_def firstPartText_def specNormalize_def specPathA_def
      specPathB_def List.map_filter_simps split: option.splits list.splits)

lemma geminiResponseText_never_empty: "geminiResponseText data \<noteq> Inr []"
  by (simp add: geminiResponseText_def firstPartText_def split: option.splits list.splits)

lemma geminiResponseText_examples:
  "geminiResponseText helloPayload = Inr ''Hello''"
  "geminiResponseText hiPayload = Inr ''Hi''"
  "geminiResponseText emptyPayload = Inl invalidStructure"
  by (simp_all add: geminiResponseText_def firstPartText_def helloPayload_def hiPayload_def
      emptyPayload_def)

lemma AIManager_geminiPrompt_ok:
  "AIManager_geminiPrompt cfg (answering data) txt opts = geminiResponseText data"
  by (simp add: AIManager_geminiPrompt_def answering_def)

text \<open>\<^verbatim>\<open>HybridAIManager.processWithGeminiAPI\<close> reads path (a) only.\<close>

lemma hybrid_gemini_reads_one_path:
  "fst (processWithGeminiAPI keyedHybrid (cloud hiPayload) ''Hello?'' Summarize noOptions)
   = Inl (typeError ''parts'')"
  by (simp add: processWithGeminiAPI_def keyedHybrid_simps cloud_def answering_def hiPayload_def
      extractText_def Let_def)

text \<open>
  C2. \<^verbatim>\<open>AIManagerEnhanced.geminiPrompt\<close> does not normalize as the claim says: it reads
  \<^verbatim>\<open>candidates[0].content.parts[0].text\<close> only and does not test the text. On the payload
  \<^verbatim>\<open>{"candidates":[{"output":"Hi"}]}\<close> every endpoint counts as failed and the error is raised
  (\<^verbatim>\<open>prompt\<close> then returns the basic response) where the claim has \<^verbatim>\<open>Hi\<close>; on a payload whose
  text is the empty string it returns the empty string, and so does \<^verbatim>\<open>prompt\<close>.
\<close>

theorem enhanced_gemini_reads_one_path:
  "fst (AIManagerEnhanced_geminiPrompt (answering hiPayload) keyedEnhanced ''Hello?'' noOptions)
     = Inl (Error (''Gemini API error: '' @ message (typeError ''parts'')))
   \<and> fst (AIManagerEnhanced_prompt noCreate (answering hiPayload) keyedEnhanced ''Hello?'' noOptions)
     = Some (basicPrompt ''Hello?'' noOptions)
   \<and> fst (AIManagerEnhanced_geminiPrompt (answering blankPayload) keyedEnhanced ''Hello?'' noOptions)
     = Inr (Some [])
   \<and> fst (AIManagerEnhanced_prompt noCreate (answering blankPayload) keyedEnhanced ''Hello?'' noOptions)
     = Some []"
proof -
  have hi: "\<And>ep. tryEndpoint (answering hiPayload) (Some ''test-key'') ''Hello?'' noOptions ep
              = Inl (message (typeError ''parts''))"
    by (simp add: tryEndpoint_def answering_def hiPayload_def extractText_def)
  have blank: "\<And>ep. tryEndpoint (answering blankPayload) (Some ''test-key'') ''Hello?'' noOptions ep
              = Inr (Some [])"
    by (simp add: tryEndpoint_def answering_def blankPayload_def extractText_def)
  have g1: "fst (AIManagerEnhanced_geminiPrompt (answering hiPayload) keyedEnhanced ''Hello?'' noOptions)
     = Inl (Error (''Gemini API error: '' @ message (typeError ''parts'')))"
    by (simp add: AIManagerEnhanced_geminiPrompt_def keyedEnhanced_key endpoints_def hi)
  have g2: "fst (AIManagerEnhanced_geminiPrompt (answering blankPayload) keyedEnhanced ''Hello?'' noOptions)
     = Inr (Some [])"
    by (simp add: AIManagerEnhanced_geminiPrompt_def keyedEnhanced_key endpoints_def blank)
  have s: "getPromptSession noCreate keyedEnhanced noOptions = (Inr None, keyedEnhanced)"
    by (simp add: getPromptSession_def keyedEnhanced_def)
  have c: "enabled (hybridConfig keyedEnhanced) \<and> orStr (geminiApiKey' (hybridConfig keyedEnhanced)) [] \<noteq> []"
    by (simp add: keyedEnhanced_def)
  have p1: "fst (AIManagerEnhanced_prompt noCreate (answering hiPayload) keyedEnhanced ''Hello?'' noOptions)
     = Some (basicPrompt ''Hello?'' noOptions)"
  proof -
    obtain evs where "AIManagerEnhanced_geminiPrompt (answering hiPayload) keyedEnhanced ''Hello?'' noOptions
      = (Inl (Error (''Gemini API error: '' @ message (typeError ''parts''))), evs)"
      using g1 by (cases "AIManagerEnhanced_geminiPrompt (answering hiPayload) keyedEnhanced ''Hello?'' noOptions") simp
    then show ?thesis
      using c by (simp add: AIManagerEnhanced_prompt_def s promptFallbacks_def Let_def)
  qed
  have p2: "fst (AIManagerEnhanced_prompt noCreate (answering blankPayload) keyedEnhanced ''Hello?'' noOptions)
     = Some []"
  proof -
    obtain evs where "AIManagerEnhanced_geminiPrompt (answering blankPayload) keyedEnhanced ''Hello?'' noOptions
      = (Inr (Some []), evs)"
      using g2 by (cases "AIManagerEnhanced_geminiPrompt (answering blankPayload) keyedEnhanced ''Hello?'' noOptions") simp
    then show ?thesis
      using c by (simp add: AIManagerEnhanced_prompt_def s promptFallbacks_def Let_def)
  qed
  show ?thesis using g1 g2 p1 p2 by simp
qed

end
